theory Spec2Isabelle
  imports Main
begin

text \<open>
  A model of \<open>src/vs/editor/contrib/rtv/remote/RTVUtils.ts\<close>: the processes that share
  one web worker, their listeners on the worker's \<open>message\<close> event, and the module
  state around them.

  \<^item> Objects live in a heap and are named by reference; the worker's listener list,
    the posted requests and the module variables are fields of one state record, and
    every function of the source takes the state and returns the new one.
  \<^item> JavaScript numbers that count (ids, \<open>idGen.next\<close>) are natural numbers; the loss
    of precision of \<open>next++\<close> beyond \<open>2\<^sup>5\<^sup>3\<close> is not modelled.
  \<^item> A \<open>TypeError\<close> on a missing page element or editor model is a value of type
    \<open>exn\<close>. Errors of the worker itself (\<open>pyodideWorker.onerror\<close>) and header names the
    browser rejects are outside the model.
\<close>

section \<open>Message envelopes (RTVUtils.ts, lines 23-69)\<close>

datatype ResponseType = STDOUT | STDERR | RESULT | EXCEPTION | ERROR | LOADED

datatype RequestType = RUNPY | IMGSUM

record PyodideWorkerResponse =
  id :: nat
  type :: ResponseType
  msg :: string

record RunpyWorkerRequest =
  type :: RequestType
  id :: nat
  name :: string
  content :: string

record ImgSumWorkerRequest =
  type :: RequestType
  id :: nat
  name :: string
  content :: string
  line :: int
  varname :: string

datatype WorkerRequest = PostRunpy RunpyWorkerRequest | PostImgSum ImgSumWorkerRequest

section \<open>Host callbacks\<close>

text \<open>
  The observers a caller hands to \<open>onStdout\<close>, \<open>onStderr\<close> and \<open>onExit\<close> are functions of
  the host. They are opaque here: a callback is a name, and calling it is recorded as a
  \<open>call\<close> with the arguments it received. \<open>bootstrapOnExit\<close> is the arrow function the init
  listener passes to \<open>onExit\<close> (lines 328-332). A callback does not call back into the
  process that invokes it.
\<close>

datatype fn = Fn nat | bootstrapOnExit

text \<open>The first argument of the exit observer: \<open>0\<close>, \<open>1\<close> or \<open>null\<close>.\<close>

datatype exitCode = Num int | Null

datatype call =
    CallData fn string
  | CallExit fn exitCode string

text \<open>JavaScript truthiness of a string: the empty string is falsy.\<close>

definition truthy :: "string \<Rightarrow> bool" where
  "truthy s = (s \<noteq> [])"

text \<open>Truthiness of a field of type \<open>string | undefined\<close>.\<close>

definition truthy_opt :: "string option \<Rightarrow> bool" where
  "truthy_opt r = (case r of None \<Rightarrow> False | Some s \<Rightarrow> truthy s)"

section \<open>RunpyProcess (lines 71-157)\<close>

text \<open>
  The field \<open>onResult\<close> holds the closure built by \<open>onExit\<close>; the closure is determined by
  the \<open>fn\<close> it captured, so the field stores that \<open>fn\<close>, and \<open>RunpyProcess_onResult\<close> is
  the closure's body, reading the fields of the process at the time of the call.
\<close>

record RunpyProcess =
  id :: nat
  onResult :: "fn option"
  onOutput :: "fn option"
  onError :: "fn option"
  result :: "string option"
  error :: string
  "output" :: string
  killed :: bool

definition RunpyProcess_onResult :: "RunpyProcess \<Rightarrow> fn \<Rightarrow> string \<Rightarrow> call list" where
  "RunpyProcess_onResult p f res =
     (case RunpyProcess.onOutput p of None \<Rightarrow> [] | Some g \<Rightarrow> [CallData g (RunpyProcess.output p)])
     @ (case RunpyProcess.onError p of None \<Rightarrow> [] | Some g \<Rightarrow> [CallData g (RunpyProcess.error p)])
     @ [CallExit f (if truthy res \<and> res \<noteq> [] then Num 0 else Null) res]"

definition RunpyProcess_eventListener ::
  "RunpyProcess \<Rightarrow> PyodideWorkerResponse \<Rightarrow> RunpyProcess \<times> call list" where
  "RunpyProcess_eventListener p m =
     (if PyodideWorkerResponse.id m \<noteq> RunpyProcess.id p then (p, [])
      else case PyodideWorkerResponse.type m of
        RESULT \<Rightarrow>
          (let p' = p\<lparr>RunpyProcess.result := Some (msg m)\<rparr> in
           (p', case RunpyProcess.onResult p' of
                  None \<Rightarrow> []
                | Some f \<Rightarrow> RunpyProcess_onResult p' f (msg m)))
      | STDOUT \<Rightarrow> (p\<lparr>RunpyProcess.output := RunpyProcess.output p @ msg m\<rparr>, [])
      | STDERR \<Rightarrow> (p\<lparr>RunpyProcess.error := RunpyProcess.error p @ msg m\<rparr>, [])
      | EXCEPTION \<Rightarrow> (p\<lparr>RunpyProcess.error := RunpyProcess.error p @ msg m\<rparr>, [])
      | _ \<Rightarrow> (p, []))"

definition RunpyProcess_onStdout :: "RunpyProcess \<Rightarrow> fn \<Rightarrow> RunpyProcess \<times> call list" where
  "RunpyProcess_onStdout p f = (p\<lparr>RunpyProcess.onOutput := Some f\<rparr>, [])"

definition RunpyProcess_onStderr :: "RunpyProcess \<Rightarrow> fn \<Rightarrow> RunpyProcess \<times> call list" where
  "RunpyProcess_onStderr p f = (p\<lparr>RunpyProcess.onError := Some f\<rparr>, [])"

text \<open>
  \<open>kill\<close> also removes the listener from the worker; that part is in \<open>Process_kill\<close>
  below, where the worker's listener list lives.
\<close>

definition RunpyProcess_kill :: "RunpyProcess \<Rightarrow> RunpyProcess \<times> call list" where
  "RunpyProcess_kill p =
     (let p' = p\<lparr>RunpyProcess.killed := True\<rparr> in
      (p', case RunpyProcess.onResult p' of
             None \<Rightarrow> []
           | Some f \<Rightarrow> RunpyProcess_onResult p' f []))"

definition RunpyProcess_onExit :: "RunpyProcess \<Rightarrow> fn \<Rightarrow> RunpyProcess \<times> call list" where
  "RunpyProcess_onExit p f =
     (let p' = p\<lparr>RunpyProcess.onResult := Some f\<rparr> in
      (p', if truthy_opt (RunpyProcess.result p')
           then RunpyProcess_onResult p' f (the (RunpyProcess.result p'))
           else if RunpyProcess.killed p' then RunpyProcess_onResult p' f []
           else []))"

section \<open>ImgSummaryProcess (lines 159-242)\<close>

record ImgSummaryProcess =
  id :: nat
  onResult :: "fn option"
  onOutput :: "fn option"
  onError :: "fn option"
  result :: "string option"
  error :: string
  "output" :: string

definition ImgSummaryProcess_onResult :: "fn \<Rightarrow> string \<Rightarrow> call list" where
  "ImgSummaryProcess_onResult f res =
     [CallExit f (if truthy res \<and> res \<noteq> [] then Num 0 else Num 1) res]"

definition ImgSummaryProcess_eventListener ::
  "ImgSummaryProcess \<Rightarrow> PyodideWorkerResponse \<Rightarrow> ImgSummaryProcess \<times> call list" where
  "ImgSummaryProcess_eventListener p m =
     (if PyodideWorkerResponse.id m \<noteq> ImgSummaryProcess.id p then (p, [])
      else case PyodideWorkerResponse.type m of
        RESULT \<Rightarrow>
          (let p' = p\<lparr>ImgSummaryProcess.result := Some (msg m)\<rparr> in
           (p', case ImgSummaryProcess.onResult p' of
                  None \<Rightarrow> []
                | Some f \<Rightarrow> ImgSummaryProcess_onResult f (msg m)))
      | STDOUT \<Rightarrow>
          (let p' = p\<lparr>ImgSummaryProcess.output := ImgSummaryProcess.output p @ msg m\<rparr> in
           (p', case ImgSummaryProcess.onOutput p' of
                  None \<Rightarrow> []
                | Some g \<Rightarrow> [CallData g (msg m)]))
      | STDERR \<Rightarrow>
          (let p' = p\<lparr>ImgSummaryProcess.error := ImgSummaryProcess.error p @ msg m\<rparr> in
           (p', case ImgSummaryProcess.onError p' of
                  None \<Rightarrow> []
                | Some g \<Rightarrow> [CallData g (msg m)]))
      | EXCEPTION \<Rightarrow>
          (let p' = p\<lparr>ImgSummaryProcess.error := ImgSummaryProcess.error p @ msg m\<rparr> in
           (p', case ImgSummaryProcess.onError p' of
                  None \<Rightarrow> []
                | Some g \<Rightarrow> [CallData g (msg m)]))
      | _ \<Rightarrow> (p, []))"

definition ImgSummaryProcess_onStdout ::
  "ImgSummaryProcess \<Rightarrow> fn \<Rightarrow> ImgSummaryProcess \<times> call list" where
  "ImgSummaryProcess_onStdout p f =
     (let p' = p\<lparr>ImgSummaryProcess.onOutput := Some f\<rparr> in
      (p', if truthy (ImgSummaryProcess.output p')
           then [CallData f (ImgSummaryProcess.output p')] else []))"

definition ImgSummaryProcess_onStderr ::
  "ImgSummaryProcess \<Rightarrow> fn \<Rightarrow> ImgSummaryProcess \<times> call list" where
  "ImgSummaryProcess_onStderr p f =
     (let p' = p\<lparr>ImgSummaryProcess.onError := Some f\<rparr> in
      (p', if truthy (ImgSummaryProcess.error p')
           then [CallData f (ImgSummaryProcess.error p')] else []))"

text \<open>\<open>kill\<close> only removes the listener from the worker (see \<open>Process_kill\<close>).\<close>

definition ImgSummaryProcess_kill :: "ImgSummaryProcess \<Rightarrow> ImgSummaryProcess \<times> call list" where
  "ImgSummaryProcess_kill p = (p, [])"

definition ImgSummaryProcess_onExit ::
  "ImgSummaryProcess \<Rightarrow> fn \<Rightarrow> ImgSummaryProcess \<times> call list" where
  "ImgSummaryProcess_onExit p f =
     (let p' = p\<lparr>ImgSummaryProcess.onResult := Some f\<rparr> in
      (p', if truthy_opt (ImgSummaryProcess.result p')
           then ImgSummaryProcess_onResult f (the (ImgSummaryProcess.result p'))
           else []))"

section \<open>The worker, the module state and the heap of processes\<close>

text \<open>
  Processes are objects with identity: the heap is the list of all objects created so
  far and a reference is an index into it. \<open>SynthProcess\<close> (lines 244-260) has no fields.
\<close>

datatype Process = RunpyObj RunpyProcess | ImgSummaryObj ImgSummaryProcess | SynthObj

text \<open>
  The functions registered on \<open>pyodideWorker\<close> for the \<open>message\<close> event: the init listener
  of the module and the \<open>eventListener\<close> closure of the process at a reference.
\<close>

datatype listener = pyodideWorkerInitListener | eventListener nat

datatype console_entry =
    ConsoleLog string
  | ConsoleError string
  | ConsoleErrorType ResponseType

datatype exn = TypeError

text \<open>
  The state of the module and of the browser objects it touches. \<open>idGen_next\<close> is
  \<open>idGen.next\<close>; \<open>listeners\<close> is the list of \<open>message\<close> listeners of \<open>pyodideWorker\<close>, in
  the order of registration; \<open>posted\<close> collects the arguments of \<open>postMessage\<close>;
  \<open>fetches\<close> collects the requests of \<open>saveProgram\<close> (body, header name, header value);
  \<open>csrf_parameter\<close> is the \<open>name\<close> and \<open>value\<close> of the element \<open>csrf-parameter\<close> when the
  document has one; \<open>editor_model\<close> is the lines of the model of \<open>window.editor\<close> when it
  has one. \<open>trace\<close> records every call of a host callback together with the reference
  of the process that made it.
\<close>

record world =
  idGen_next :: nat
  pyodideLoaded :: bool
  listeners :: "listener list"
  posted :: "WorkerRequest list"
  fetches :: "(string \<times> string \<times> string) list"
  console :: "console_entry list"
  csrf_parameter :: "(string \<times> string) option"
  editor_model :: "string list option"
  heap :: "Process list"
  trace :: "(nat \<times> call) list"

text \<open>
  \<open>EventTarget\<close>: a listener registered twice for the same event is kept once, so the
  list never holds a listener twice, and removal takes the listener out.
\<close>

definition addEventListener :: "listener list \<Rightarrow> listener \<Rightarrow> listener list" where
  "addEventListener ls l = (if l \<in> set ls then ls else ls @ [l])"

definition removeEventListener :: "listener list \<Rightarrow> listener \<Rightarrow> listener list" where
  "removeEventListener ls l = removeAll l ls"

text \<open>Decimal digits of a number, as a template literal prints it.\<close>

fun string_of_nat :: "nat \<Rightarrow> string" where
  "string_of_nat n =
     (if n < 10 then [char_of (48 + n)]
      else string_of_nat (n div 10) @ [char_of (48 + n mod 10)])"

text \<open>\<open>Array.prototype.join\<close>.\<close>

fun join :: "string list \<Rightarrow> string \<Rightarrow> string" where
  "join [] sep = []"
| "join [x] sep = x"
| "join (x # y # ys) sep = x @ sep @ join (y # ys) sep"

subsection \<open>Constructors\<close>

definition new_RunpyProcess :: "world \<Rightarrow> string \<Rightarrow> nat \<times> world" where
  "new_RunpyProcess w program =
     (let i = idGen_next w;
          a = length (heap w);
          p = \<lparr>RunpyProcess.id = i, onResult = None, onOutput = None, onError = None,
               result = None, error = [], output = [], killed = False\<rparr>
      in (a, w\<lparr>idGen_next := i + 1,
               heap := heap w @ [RunpyObj p],
               listeners := addEventListener (listeners w) (eventListener a),
               posted := posted w @
                 [PostRunpy \<lparr>RunpyWorkerRequest.type = RUNPY, id = i,
                    name = ''program_'' @ string_of_nat i @ ''.py'', content = program\<rparr>]\<rparr>))"

definition new_ImgSummaryProcess :: "world \<Rightarrow> string \<Rightarrow> int \<Rightarrow> string \<Rightarrow> nat \<times> world" where
  "new_ImgSummaryProcess w program ln var =
     (let i = idGen_next w;
          a = length (heap w);
          p = \<lparr>ImgSummaryProcess.id = i, onResult = None, onOutput = None, onError = None,
               result = None, error = [], output = []\<rparr>
      in (a, w\<lparr>idGen_next := i + 1,
               heap := heap w @ [ImgSummaryObj p],
               listeners := addEventListener (listeners w) (eventListener a),
               posted := posted w @
                 [PostImgSum \<lparr>ImgSumWorkerRequest.type = IMGSUM, id = i,
                    name = ''imgsum_'' @ string_of_nat i @ ''.py'', content = program,
                    line = ln, varname = var\<rparr>]\<rparr>))"

definition new_SynthProcess :: "world \<Rightarrow> nat \<times> world" where
  "new_SynthProcess w = (length (heap w), w\<lparr>heap := heap w @ [SynthObj]\<rparr>)"

subsection \<open>The methods of the interface \<open>Process\<close>, by reference\<close>

text \<open>
  A reference comes from a constructor and so points into the heap; on any other
  number the methods below do nothing.
\<close>

text \<open>Store the new state of the object at \<open>a\<close> and record the calls it made.\<close>

definition commit :: "world \<Rightarrow> nat \<Rightarrow> Process \<Rightarrow> call list \<Rightarrow> world" where
  "commit w a obj cs = w\<lparr>heap := (heap w)[a := obj], trace := trace w @ map (Pair a) cs\<rparr>"

definition Process_onStdout :: "world \<Rightarrow> nat \<Rightarrow> fn \<Rightarrow> world" where
  "Process_onStdout w a f =
     (if a < length (heap w) then
        (case heap w ! a of
           RunpyObj p \<Rightarrow> (case RunpyProcess_onStdout p f of (p', cs) \<Rightarrow> commit w a (RunpyObj p') cs)
         | ImgSummaryObj p \<Rightarrow>
             (case ImgSummaryProcess_onStdout p f of (p', cs) \<Rightarrow> commit w a (ImgSummaryObj p') cs)
         | SynthObj \<Rightarrow> w)
      else w)"

definition Process_onStderr :: "world \<Rightarrow> nat \<Rightarrow> fn \<Rightarrow> world" where
  "Process_onStderr w a f =
     (if a < length (heap w) then
        (case heap w ! a of
           RunpyObj p \<Rightarrow> (case RunpyProcess_onStderr p f of (p', cs) \<Rightarrow> commit w a (RunpyObj p') cs)
         | ImgSummaryObj p \<Rightarrow>
             (case ImgSummaryProcess_onStderr p f of (p', cs) \<Rightarrow> commit w a (ImgSummaryObj p') cs)
         | SynthObj \<Rightarrow> w)
      else w)"

definition Process_kill :: "world \<Rightarrow> nat \<Rightarrow> world" where
  "Process_kill w a =
     (if a < length (heap w) then
        (case heap w ! a of
           RunpyObj p \<Rightarrow>
             (case RunpyProcess_kill p of (p', cs) \<Rightarrow>
                commit (w\<lparr>listeners := removeEventListener (listeners w) (eventListener a)\<rparr>)
                  a (RunpyObj p') cs)
         | ImgSummaryObj p \<Rightarrow>
             (case ImgSummaryProcess_kill p of (p', cs) \<Rightarrow>
                commit (w\<lparr>listeners := removeEventListener (listeners w) (eventListener a)\<rparr>)
                  a (ImgSummaryObj p') cs)
         | SynthObj \<Rightarrow> w)
      else w)"

definition Process_onExit :: "world \<Rightarrow> nat \<Rightarrow> fn \<Rightarrow> world" where
  "Process_onExit w a f =
     (if a < length (heap w) then
        (case heap w ! a of
           RunpyObj p \<Rightarrow> (case RunpyProcess_onExit p f of (p', cs) \<Rightarrow> commit w a (RunpyObj p') cs)
         | ImgSummaryObj p \<Rightarrow>
             (case ImgSummaryProcess_onExit p f of (p', cs) \<Rightarrow> commit w a (ImgSummaryObj p') cs)
         | SynthObj \<Rightarrow> w)
      else w)"

text \<open>The \<open>eventListener\<close> closure of the object at \<open>a\<close>, called with a message.\<close>

definition Process_eventListener :: "world \<Rightarrow> nat \<Rightarrow> PyodideWorkerResponse \<Rightarrow> world" where
  "Process_eventListener w a m =
     (if a < length (heap w) then
        (case heap w ! a of
           RunpyObj p \<Rightarrow>
             (case RunpyProcess_eventListener p m of (p', cs) \<Rightarrow> commit w a (RunpyObj p') cs)
         | ImgSummaryObj p \<Rightarrow>
             (case ImgSummaryProcess_eventListener p m of (p', cs) \<Rightarrow>
                commit w a (ImgSummaryObj p') cs)
         | SynthObj \<Rightarrow> w)
      else w)"

subsection \<open>The exported functions (lines 262-304)\<close>

text \<open>
  \<open>saveProgram\<close> reads \<open>value\<close> and \<open>name\<close> of the element \<open>csrf-parameter\<close>; without the
  element the read throws. The request itself is fire-and-forget.
\<close>

definition saveProgram :: "world \<Rightarrow> string \<Rightarrow> exn + world" where
  "saveProgram w program =
     (case csrf_parameter w of
        None \<Rightarrow> Inl TypeError
      | Some (csrfHeaderName, csrfToken) \<Rightarrow>
          Inr (w\<lparr>fetches := fetches w @ [(program, csrfHeaderName, csrfToken)]\<rparr>))"

definition runProgram :: "world \<Rightarrow> string \<Rightarrow> exn + nat \<times> world" where
  "runProgram w program =
     (if \<not> pyodideLoaded w then Inr (new_SynthProcess w)
      else case saveProgram w program of
             Inl e \<Rightarrow> Inl e
           | Inr w' \<Rightarrow> Inr (new_RunpyProcess w' program))"

definition synthesizeSnippet :: "world \<Rightarrow> string \<Rightarrow> nat \<times> world" where
  "synthesizeSnippet w problem = new_SynthProcess w"

definition runImgSummary :: "world \<Rightarrow> string \<Rightarrow> int \<Rightarrow> string \<Rightarrow> nat \<times> world" where
  "runImgSummary w program ln var =
     (if \<not> pyodideLoaded w then new_SynthProcess w
      else new_ImgSummaryProcess w program ln var)"

subsection \<open>The init listener and the dispatch of a message (lines 313-343)\<close>

text \<open>
  An exception thrown inside a listener ends that listener; the state written before
  it stays and the dispatch goes on with the next listener.
\<close>

definition pyodideWorkerInitListener_body :: "world \<Rightarrow> PyodideWorkerResponse \<Rightarrow> world" where
  "pyodideWorkerInitListener_body w m =
     (if PyodideWorkerResponse.type m = LOADED then
        (let w1 = w\<lparr>console := console w @ [ConsoleLog ''Pyodide loaded!''],
                    pyodideLoaded := True,
                    listeners := removeEventListener (listeners w) pyodideWorkerInitListener\<rparr>
         in case editor_model w1 of
              None \<Rightarrow> w1
            | Some ls \<Rightarrow>
                (case runProgram w1 (join ls [CHR 0x0A]) of
                   Inl e \<Rightarrow> w1
                 | Inr (a, w2) \<Rightarrow> Process_onExit w2 a bootstrapOnExit))
      else w\<lparr>console := console w @
               [ConsoleError ''First message from pyodide worker was not a load message!'',
                ConsoleErrorType (PyodideWorkerResponse.type m),
                ConsoleErrorType LOADED]\<rparr>)"

definition invoke :: "listener \<Rightarrow> PyodideWorkerResponse \<Rightarrow> world \<Rightarrow> world" where
  "invoke l m w =
     (case l of
        pyodideWorkerInitListener \<Rightarrow> pyodideWorkerInitListener_body w m
      | eventListener a \<Rightarrow> Process_eventListener w a m)"

text \<open>
  A \<open>message\<close> event on the worker: the listeners registered when the dispatch starts
  are called in order; one that was removed in the meantime is skipped, and one that
  was added during the dispatch is not called for this event.
\<close>

fun dispatch_loop :: "listener list \<Rightarrow> PyodideWorkerResponse \<Rightarrow> world \<Rightarrow> world" where
  "dispatch_loop [] m w = w"
| "dispatch_loop (l # ls) m w =
     dispatch_loop ls m (if l \<in> set (listeners w) then invoke l m w else w)"

definition dispatchEvent :: "world \<Rightarrow> PyodideWorkerResponse \<Rightarrow> world" where
  "dispatchEvent w m = dispatch_loop (listeners w) m w"

text \<open>The module after loading: the worker is started and the init listener registered.\<close>

definition init_world :: "(string \<times> string) option \<Rightarrow> string list option \<Rightarrow> world" where
  "init_world csrf model =
     \<lparr>idGen_next = 0, pyodideLoaded = False, listeners = [pyodideWorkerInitListener],
      posted = [], fetches = [], console = [], csrf_parameter = csrf, editor_model = model,
      heap = [], trace = []\<rparr>"

subsection \<open>Histories\<close>

text \<open>
  What can happen to the module: the worker delivers a message, or the host calls an
  exported function or a method of a process it holds. A factory call that throws
  leaves the state as it was.
\<close>

datatype action =
    Message PyodideWorkerResponse
  | RunProgram string
  | SynthesizeSnippet string
  | RunImgSummary string int string
  | OnStdout nat fn
  | OnStderr nat fn
  | Kill nat
  | OnExit nat fn

fun step :: "world \<Rightarrow> action \<Rightarrow> world" where
  "step w (Message m) = dispatchEvent w m"
| "step w (RunProgram program) =
     (case runProgram w program of Inl e \<Rightarrow> w | Inr (a, w') \<Rightarrow> w')"
| "step w (SynthesizeSnippet problem) = snd (synthesizeSnippet w problem)"
| "step w (RunImgSummary program ln var) = snd (runImgSummary w program ln var)"
| "step w (OnStdout a f) = Process_onStdout w a f"
| "step w (OnStderr a f) = Process_onStderr w a f"
| "step w (Kill a) = Process_kill w a"
| "step w (OnExit a f) = Process_onExit w a f"

fun exec :: "world \<Rightarrow> action list \<Rightarrow> world" where
  "exec w [] = w"
| "exec w (x # xs) = exec (step w x) xs"

text \<open>The calls made by the process at \<open>a\<close>, in order.\<close>

definition calls_of :: "nat \<Rightarrow> world \<Rightarrow> call list" where
  "calls_of a w = map snd (filter (\<lambda>e. fst e = a) (trace w))"

fun is_exit :: "call \<Rightarrow> bool" where
  "is_exit (CallExit f c r) = True"
| "is_exit (CallData f d) = False"

section \<open>Observations used in the statements\<close>

text \<open>
  The correlation id a process holds; a placeholder holds none.
\<close>

fun proc_id :: "Process \<Rightarrow> nat option" where
  "proc_id (RunpyObj p) = Some (RunpyProcess.id p)"
| "proc_id (ImgSummaryObj p) = Some (ImgSummaryProcess.id p)"
| "proc_id SynthObj = None"

text \<open>
  \<open>untouched a w w'\<close>: between \<open>w\<close> and \<open>w'\<close> the object at \<open>a\<close> kept its state, made no
  call, and its listener is registered in \<open>w'\<close> exactly if it was in \<open>w\<close>.
\<close>

definition untouched :: "nat \<Rightarrow> world \<Rightarrow> world \<Rightarrow> bool" where
  "untouched a w w' \<longleftrightarrow>
     length (heap w) \<le> length (heap w') \<and> heap w' ! a = heap w ! a \<and>
     calls_of a w' = calls_of a w \<and>
     (eventListener a \<in> set (listeners w') \<longleftrightarrow> eventListener a \<in> set (listeners w))"

text \<open>
  The calls by which the closure of \<open>RunpyProcess.onExit\<close> hands the two buffers to the
  registered output observers, before it calls the exit observer.
\<close>

definition RunpyProcess_buffers :: "RunpyProcess \<Rightarrow> call list" where
  "RunpyProcess_buffers p =
     (case RunpyProcess.onOutput p of None \<Rightarrow> [] | Some g \<Rightarrow> [CallData g (RunpyProcess.output p)])
     @ (case RunpyProcess.onError p of None \<Rightarrow> [] | Some g \<Rightarrow> [CallData g (RunpyProcess.error p)])"

text \<open>
  The status an exit observer may receive with a result text, by variant: \<open>0\<close> with a
  non-empty text; with an empty one \<open>null\<close> from a run-program process and \<open>1\<close> from an
  image-summary process. A placeholder calls no exit observer.
\<close>

fun exit_code_ok :: "Process \<Rightarrow> call \<Rightarrow> bool" where
  "exit_code_ok (RunpyObj p) (CallExit f c r) = (c = (if r \<noteq> [] then Num 0 else Null))"
| "exit_code_ok (ImgSummaryObj p) (CallExit f c r) = (c = (if r \<noteq> [] then Num 0 else Num 1))"
| "exit_code_ok SynthObj (CallExit f c r) = False"
| "exit_code_ok obj (CallData f d) = True"

text \<open>
  Every recorded call was made by an object of the heap and, if it is a call of an
  exit observer, passed the status of that object's variant.
\<close>

definition trace_ok :: "world \<Rightarrow> bool" where
  "trace_ok w \<longleftrightarrow>
     (\<forall>e \<in> set (trace w). fst e < length (heap w) \<and> exit_code_ok (heap w ! fst e) (snd e))"

text \<open>
  An action that is not the delivery of a \<open>RESULT\<close> tagged with \<open>i\<close>.
\<close>

fun no_result_for :: "nat \<Rightarrow> action \<Rightarrow> bool" where
  "no_result_for i (Message m) =
     (\<not> (PyodideWorkerResponse.type m = RESULT \<and> PyodideWorkerResponse.id m = i))"
| "no_result_for i x = True"

text \<open>
  A call by the host of a method of the process at \<open>a\<close>.
\<close>

fun targets :: "nat \<Rightarrow> action \<Rightarrow> bool" where
  "targets a (OnStdout b f) = (b = a)"
| "targets a (OnStderr b f) = (b = a)"
| "targets a (Kill b) = (b = a)"
| "targets a (OnExit b f) = (b = a)"
| "targets a x = False"

text \<open>
  A killed run-program process at \<open>a\<close>, off the worker and without a result, holding
  the buffers of \<open>p\<close>.
\<close>

definition killed_unresolved :: "nat \<Rightarrow> RunpyProcess \<Rightarrow> world \<Rightarrow> bool" where
  "killed_unresolved a p w \<longleftrightarrow>
     a < length (heap w) \<and> eventListener a \<notin> set (listeners w) \<and>
     (\<exists>p'. heap w ! a = RunpyObj p' \<and> RunpyProcess.killed p' \<and> RunpyProcess.result p' = None
        \<and> RunpyProcess.output p' = RunpyProcess.output p
        \<and> RunpyProcess.error p' = RunpyProcess.error p)"

text \<open>
  An image-summary process at \<open>a\<close> whose listener is off the worker, with the result
  field \<open>r\<close>; if \<open>r\<close> is falsy, \<open>c\<close> are the calls of exit observers it has made.
\<close>

definition img_frozen :: "nat \<Rightarrow> string option \<Rightarrow> call list \<Rightarrow> world \<Rightarrow> bool" where
  "img_frozen a r c w \<longleftrightarrow>
     a < length (heap w) \<and> eventListener a \<notin> set (listeners w) \<and>
     (\<exists>q. heap w ! a = ImgSummaryObj q \<and> ImgSummaryProcess.result q = r) \<and>
     (\<not> truthy_opt r \<longrightarrow> filter is_exit (calls_of a w) = c)"

text \<open>
  An image-summary process at \<open>a\<close> with id \<open>i\<close> and no result; \<open>c\<close> are the calls of exit
  observers it has made.
\<close>

definition img_unresolved :: "nat \<Rightarrow> nat \<Rightarrow> call list \<Rightarrow> world \<Rightarrow> bool" where
  "img_unresolved a i c w \<longleftrightarrow>
     a < length (heap w) \<and>
     (\<exists>q. heap w ! a = ImgSummaryObj q \<and> ImgSummaryProcess.id q = i
        \<and> ImgSummaryProcess.result q = None) \<and>
     filter is_exit (calls_of a w) = c"

subsection \<open>Example states and histories\<close>

definition mk_msg :: "nat \<Rightarrow> ResponseType \<Rightarrow> string \<Rightarrow> PyodideWorkerResponse" where
  "mk_msg i t s = \<lparr>PyodideWorkerResponse.id = i, type = t, msg = s\<rparr>"

text \<open>
  A page with the CSRF element and an editor holding two lines, before the engine loads.
\<close>

definition w_start :: world where
  "w_start = init_world (Some (''X-CSRF-TOKEN'', ''t0k'')) (Some [''x = 1'', ''print(x)''])"

text \<open>
  The engine has loaded: the bootstrap run is the process at reference 0 (id 0, exit
  observer \<open>bootstrapOnExit\<close>); then the host asked for an image summary, the process at
  reference 1 (id 1), and gave it the exit observer \<open>Fn 7\<close>. \<open>p_run\<close> and \<open>p_img\<close> are the
  two objects in that state.
\<close>

definition w_two :: world where
  "w_two = exec w_start
     [Message (mk_msg 0 LOADED []), RunImgSummary ''img = 1'' 1 ''img'', OnExit 1 (Fn 7)]"

definition p_run :: RunpyProcess where
  "p_run = \<lparr>RunpyProcess.id = 0, onResult = Some bootstrapOnExit, onOutput = None,
            onError = None, result = None, error = [], output = [], killed = False\<rparr>"

definition p_img :: ImgSummaryProcess where
  "p_img = \<lparr>ImgSummaryProcess.id = 1, onResult = Some (Fn 7), onOutput = None,
            onError = None, result = None, error = [], output = []\<rparr>"

text \<open>
  Processes that hold buffered output and a stdout observer.
\<close>

definition p_run_out :: RunpyProcess where
  "p_run_out = p_run\<lparr>RunpyProcess.onOutput := Some (Fn 2), RunpyProcess.output := ''ab''\<rparr>"

definition p_img_out :: ImgSummaryProcess where
  "p_img_out = p_img\<lparr>ImgSummaryProcess.id := 0, ImgSummaryProcess.onOutput := Some (Fn 2),
                 ImgSummaryProcess.output := ''ab'', ImgSummaryProcess.error := ''e''\<rparr>"

text \<open>
  Messages for the process at 0 and actions on other processes.
\<close>

definition h_late :: "action list" where
  "h_late = [Message (mk_msg 0 STDOUT ''late''), Message (mk_msg 0 RESULT ''s''),
             RunImgSummary ''q'' 2 ''v'', Kill 1]"

text \<open>
  What may follow the kill of the process at 1: a late result, registrations, output,
  further kills.
\<close>

definition h_after :: "action list" where
  "h_after = [Message (mk_msg 1 RESULT ''r''), OnExit 1 (Fn 8), Message (mk_msg 1 STDERR ''e''),
              OnStderr 1 (Fn 3), Kill 1, Kill 0]"

text \<open>
  Exceptions for the process at 1, a result for the process at 0, and registrations.
\<close>

definition h_exceptions :: "action list" where
  "h_exceptions = [OnStderr 1 (Fn 3), Message (mk_msg 1 EXCEPTION ''boom''),
                   Message (mk_msg 0 RESULT ''r''), Message (mk_msg 1 EXCEPTION ''again''),
                   OnExit 1 (Fn 8)]"

text \<open>
  From the load of the module: the engine loads, an image summary is requested and
  given an exit observer, both processes receive an empty result, and the image
  summary a second, non-empty one.
\<close>

definition h_empty :: "action list" where
  "h_empty = [Message (mk_msg 0 LOADED []), RunImgSummary ''img = 1'' 1 ''img'', OnExit 1 (Fn 7),
              Message (mk_msg 0 RESULT []), Message (mk_msg 1 RESULT []),
              Message (mk_msg 1 RESULT ''r'')]"

text \<open>
  The engine loads; the host starts a run (reference 1, id 1) and an image summary
  (reference 2, id 2) and registers nothing yet.
\<close>

definition h_three :: "action list" where
  "h_three = [Message (mk_msg 0 LOADED []), RunProgram ''pass'', RunImgSummary ''img = 1'' 1 ''img'']"

text \<open>
  A run-program process at \<open>a\<close> that, as long as it has neither a result nor been
  killed, has made exactly the calls \<open>c\<close>.
\<close>

definition runpy_quiet :: "nat \<Rightarrow> call list \<Rightarrow> world \<Rightarrow> bool" where
  "runpy_quiet a c w \<longleftrightarrow>
     a < length (heap w) \<and>
     (\<exists>q. heap w ! a = RunpyObj q \<and>
        (RunpyProcess.result q = None \<and> \<not> RunpyProcess.killed q \<longrightarrow> calls_of a w = c))"

text \<open>
  The bootstrap run of \<open>w_two\<close> has been given a stdout observer and has received the
  output \<open>ab\<close>: its object is \<open>p_run_out\<close>.
\<close>

definition w_out :: world where
  "w_out = exec w_two [OnStdout 0 (Fn 2), Message (mk_msg 0 STDOUT ''ab'')]"

text \<open>More output and a stderr registration for the process at 0, and no result.\<close>

definition h_quiet :: "action list" where
  "h_quiet = [Message (mk_msg 0 STDOUT ''c''), OnStderr 0 (Fn 3),
              Message (mk_msg 0 STDERR ''e''), Message (mk_msg 1 RESULT ''r'')]"

section \<open>Frame lemmas: what an operation leaves alone\<close>

lemma untouched_refl: "untouched a w w"
  by (simp add: untouched_def)

lemma untouched_trans: "untouched a w w' \<Longrightarrow> untouched a w' w'' \<Longrightarrow> untouched a w w''"
  by (simp add: untouched_def)

lemma untouched_length: "untouched a w w' \<Longrightarrow> a < length (heap w) \<Longrightarrow> a < length (heap w')"
  by (simp add: untouched_def)

lemma calls_of_commit:
  "calls_of a (commit w b obj cs) = calls_of a w @ (if a = b then cs else [])"
  by (simp add: calls_of_def commit_def filter_map comp_def)

lemma heap_commit: "heap (commit w b obj cs) = (heap w)[b := obj]"
  by (simp add: commit_def)

lemma listeners_commit: "listeners (commit w b obj cs) = listeners w"
  by (simp add: commit_def)

lemma untouched_commit: "b \<noteq> a \<Longrightarrow> untouched a w (commit w b obj cs)"
  by (simp add: untouched_def calls_of_commit heap_commit listeners_commit)

lemma untouched_onStdout: "b \<noteq> a \<Longrightarrow> untouched a w (Process_onStdout w b f)"
  by (simp add: Process_onStdout_def untouched_commit untouched_refl
      split: Process.splits prod.splits)

lemma untouched_onStderr: "b \<noteq> a \<Longrightarrow> untouched a w (Process_onStderr w b f)"
  by (simp add: Process_onStderr_def untouched_commit untouched_refl
      split: Process.splits prod.splits)

lemma untouched_onExit: "b \<noteq> a \<Longrightarrow> untouched a w (Process_onExit w b f)"
  by (simp add: Process_onExit_def untouched_commit untouched_refl
      split: Process.splits prod.splits)

lemma untouched_eventListener: "b \<noteq> a \<Longrightarrow> untouched a w (Process_eventListener w b m)"
  by (simp add: Process_eventListener_def untouched_commit untouched_refl
      split: Process.splits prod.splits)

lemma untouched_unlisten:
  "b \<noteq> a \<Longrightarrow>
   untouched a w (w\<lparr>listeners := removeEventListener (listeners w) (eventListener b)\<rparr>)"
  by (simp add: untouched_def calls_of_def removeEventListener_def)

lemma untouched_kill: "b \<noteq> a \<Longrightarrow> untouched a w (Process_kill w b)"
  by (auto simp add: Process_kill_def untouched_refl split: Process.splits prod.splits
      intro: untouched_trans [OF untouched_unlisten untouched_commit])

lemma untouched_new_RunpyProcess:
  "a < length (heap w) \<Longrightarrow> untouched a w (snd (new_RunpyProcess w s))"
  by (simp add: new_RunpyProcess_def untouched_def calls_of_def addEventListener_def
      Let_def nth_append)

lemma untouched_new_ImgSummaryProcess:
  "a < length (heap w) \<Longrightarrow> untouched a w (snd (new_ImgSummaryProcess w s ln v))"
  by (simp add: new_ImgSummaryProcess_def untouched_def calls_of_def addEventListener_def
      Let_def nth_append)

lemma untouched_new_SynthProcess:
  "a < length (heap w) \<Longrightarrow> untouched a w (snd (new_SynthProcess w))"
  by (simp add: new_SynthProcess_def untouched_def calls_of_def nth_append)

lemma fst_new_RunpyProcess: "fst (new_RunpyProcess w s) = length (heap w)"
  by (simp add: new_RunpyProcess_def Let_def)

lemma untouched_saveProgram:
  "saveProgram w s = Inr w' \<Longrightarrow> untouched a w w' \<and> heap w' = heap w"
  by (auto simp add: saveProgram_def untouched_def calls_of_def split: option.splits)

lemma untouched_runProgram:
  assumes "a < length (heap w)" and "runProgram w s = Inr (b, w')"
  shows "untouched a w w' \<and> b \<noteq> a"
proof (cases "pyodideLoaded w")
  case False
  with assms show ?thesis
    using untouched_new_SynthProcess [of a w]
    by (auto simp add: runProgram_def new_SynthProcess_def)
next
  case True
  with assms obtain w1 where s: "saveProgram w s = Inr w1"
    and n: "new_RunpyProcess w1 s = (b, w')"
    by (auto simp add: runProgram_def split: sum.splits)
  from s have u: "untouched a w w1" and h: "heap w1 = heap w"
    using untouched_saveProgram by blast+
  from assms h have "a < length (heap w1)" by simp
  from untouched_new_RunpyProcess [OF this, of s] n have "untouched a w1 w'" by simp
  moreover from n h have "b = length (heap w)"
    using fst_new_RunpyProcess [of w1 s] by simp
  ultimately show ?thesis using u assms untouched_trans by blast
qed

lemma untouched_runImgSummary:
  "a < length (heap w) \<Longrightarrow> untouched a w (snd (runImgSummary w s ln v))"
  by (simp add: runImgSummary_def untouched_new_SynthProcess untouched_new_ImgSummaryProcess)

lemma untouched_synthesizeSnippet:
  "a < length (heap w) \<Longrightarrow> untouched a w (snd (synthesizeSnippet w s))"
  by (simp add: synthesizeSnippet_def untouched_new_SynthProcess)

lemma untouched_initListener:
  assumes "a < length (heap w)"
  shows "untouched a w (pyodideWorkerInitListener_body w m)"
proof (cases "PyodideWorkerResponse.type m = LOADED")
  case False
  then show ?thesis
    by (simp add: pyodideWorkerInitListener_body_def untouched_def calls_of_def)
next
  case True
  define w1 where "w1 = w\<lparr>console := console w @ [ConsoleLog ''Pyodide loaded!''],
                    pyodideLoaded := True,
                    listeners := removeEventListener (listeners w) pyodideWorkerInitListener\<rparr>"
  have u1: "untouched a w w1"
    by (simp add: w1_def untouched_def calls_of_def removeEventListener_def)
  have a1: "a < length (heap w1)" using assms by (simp add: w1_def)
  have body: "pyodideWorkerInitListener_body w m =
      (case editor_model w1 of
              None \<Rightarrow> w1
            | Some ls \<Rightarrow>
                (case runProgram w1 (join ls [CHR 0x0A]) of
                   Inl e \<Rightarrow> w1
                 | Inr (b, w2) \<Rightarrow> Process_onExit w2 b bootstrapOnExit))"
    unfolding pyodideWorkerInitListener_body_def Let_def w1_def using True by simp
  show ?thesis
  proof (cases "editor_model w1")
    case None
    with body u1 show ?thesis by simp
  next
    case (Some ls)
    show ?thesis
    proof (cases "runProgram w1 (join ls [CHR 0x0A])")
      case (Inl e)
      with body Some u1 show ?thesis by simp
    next
      case (Inr r)
      obtain b w2 where r: "r = (b, w2)" by (cases r)
      from untouched_runProgram [OF a1] Inr r have "untouched a w1 w2" and "b \<noteq> a" by auto
      then have "untouched a w1 (Process_onExit w2 b bootstrapOnExit)"
        using untouched_onExit untouched_trans by blast
      with u1 have "untouched a w (Process_onExit w2 b bootstrapOnExit)"
        using untouched_trans by blast
      with body Some Inr r show ?thesis by simp
    qed
  qed
qed

lemma untouched_invoke:
  "a < length (heap w) \<Longrightarrow> l \<noteq> eventListener a \<Longrightarrow> untouched a w (invoke l m w)"
  by (cases l) (simp_all add: invoke_def untouched_initListener untouched_eventListener)

text \<open>What every listener call preserves, a dispatch preserves; likewise for histories.\<close>

lemma dispatch_loop_induct:
  assumes "P w" and "\<And>w l. P w \<Longrightarrow> l \<in> set (listeners w) \<Longrightarrow> P (invoke l m w)"
  shows "P (dispatch_loop ls m w)"
  using assms(1)
proof (induction ls arbitrary: w)
  case Nil
  then show ?case by simp
next
  case (Cons l ls)
  then show ?case using assms(2) by simp
qed

lemma exec_induct:
  assumes "P w" and "\<And>w x. P w \<Longrightarrow> x \<in> set xs \<Longrightarrow> P (step w x)"
  shows "P (exec w xs)"
  using assms
proof (induction xs arbitrary: w)
  case Nil
  then show ?case by simp
next
  case (Cons x xs)
  then show ?case by simp
qed

lemma dispatch_untouched:
  assumes "a < length (heap w)" and "eventListener a \<notin> set (listeners w)"
  shows "untouched a w (dispatchEvent w m)"
  unfolding dispatchEvent_def
proof (rule dispatch_loop_induct)
  show "untouched a w w" by (rule untouched_refl)
next
  fix w' l
  assume u: "untouched a w w'" and l: "l \<in> set (listeners w')"
  from u assms have "a < length (heap w')" and "eventListener a \<notin> set (listeners w')"
    by (simp_all add: untouched_def)
  with l have "l \<noteq> eventListener a" by auto
  with \<open>a < length (heap w')\<close> have "untouched a w' (invoke l m w')"
    by (rule untouched_invoke)
  with u show "untouched a w (invoke l m w')" by (rule untouched_trans)
qed

lemma step_untouched:
  assumes "a < length (heap w)" and "\<not> targets a x"
    and "eventListener a \<notin> set (listeners w) \<or> (\<forall>m. x \<noteq> Message m)"
  shows "untouched a w (step w x)"
proof (cases x)
  case (Message m)
  with assms show ?thesis by (simp add: dispatch_untouched)
next
  case (RunProgram s)
  show ?thesis
  proof (cases "runProgram w s")
    case (Inl e)
    with RunProgram show ?thesis by (simp add: untouched_refl)
  next
    case (Inr r)
    obtain b w' where "r = (b, w')" by (cases r)
    with Inr RunProgram untouched_runProgram [OF assms(1), of s b w'] show ?thesis by simp
  qed
next
  case (SynthesizeSnippet s)
  with assms show ?thesis by (simp add: untouched_synthesizeSnippet)
next
  case (RunImgSummary s ln v)
  with assms show ?thesis by (simp add: untouched_runImgSummary)
next
  case (OnStdout b f)
  with assms show ?thesis by (simp add: untouched_onStdout)
next
  case (OnStderr b f)
  with assms show ?thesis by (simp add: untouched_onStderr)
next
  case (Kill b)
  with assms show ?thesis by (simp add: untouched_kill)
next
  case (OnExit b f)
  with assms show ?thesis by (simp add: untouched_onExit)
qed

lemma targets_cases:
  assumes "targets a x"
  obtains f where "x = OnStdout a f" | f where "x = OnStderr a f" | "x = Kill a" | f where "x = OnExit a f"
  using assms by (cases x) auto

lemma exec_untouched:
  assumes "a < length (heap w)" and "eventListener a \<notin> set (listeners w)"
    and "\<forall>x \<in> set h. \<not> targets a x"
  shows "untouched a w (exec w h)"
proof (rule exec_induct)
  show "untouched a w w" by (rule untouched_refl)
next
  fix w' x
  assume u: "untouched a w w'" and x: "x \<in> set h"
  from u assms have "a < length (heap w')" and "eventListener a \<notin> set (listeners w')"
    by (simp_all add: untouched_def)
  with x assms(3) have "untouched a w' (step w' x)" by (simp add: step_untouched)
  with u show "untouched a w (step w' x)" by (rule untouched_trans)
qed

section \<open>The example state and the buffers of a run-program process\<close>

lemma w_two_eq:
  "w_two =
     \<lparr>idGen_next = 2, pyodideLoaded = True, listeners = [eventListener 0, eventListener 1],
      posted =
        [PostRunpy \<lparr>RunpyWorkerRequest.type = RUNPY, id = 0, name = ''program_0.py'',
           content = ''x = 1'' @ [CHR 0x0A] @ ''print(x)''\<rparr>,
         PostImgSum \<lparr>ImgSumWorkerRequest.type = IMGSUM, id = 1, name = ''imgsum_1.py'',
           content = ''img = 1'', line = 1, varname = ''img''\<rparr>],
      fetches = [(''x = 1'' @ [CHR 0x0A] @ ''print(x)'', ''X-CSRF-TOKEN'', ''t0k'')],
      console = [ConsoleLog ''Pyodide loaded!''],
      csrf_parameter = Some (''X-CSRF-TOKEN'', ''t0k''),
      editor_model = Some [''x = 1'', ''print(x)''],
      heap = [RunpyObj p_run, ImgSummaryObj p_img],
      trace = []\<rparr>"
  by code_simp

text \<open>
  Two live processes and interleaved output: each accumulates its own text only, and
  the result for one leaves the other without a result.
\<close>

lemma interleaved_output:
  "heap (exec w_start (h_three @ [Message (mk_msg 1 STDOUT ''a''), Message (mk_msg 2 STDOUT ''x''),
      Message (mk_msg 1 STDOUT ''b''), Message (mk_msg 1 RESULT ''r1'')])) ! 1
     = RunpyObj \<lparr>RunpyProcess.id = 1, onResult = None, onOutput = None, onError = None,
         result = Some ''r1'', error = [], output = ''ab'', killed = False\<rparr>"
  "heap (exec w_start (h_three @ [Message (mk_msg 1 STDOUT ''a''), Message (mk_msg 2 STDOUT ''x''),
      Message (mk_msg 1 STDOUT ''b''), Message (mk_msg 1 RESULT ''r1'')])) ! 2
     = ImgSummaryObj \<lparr>ImgSummaryProcess.id = 2, onResult = None, onOutput = None,
         onError = None, result = None, error = [], output = ''x''\<rparr>"
  by code_simp+

lemma is_exit_buffers: "filter is_exit (RunpyProcess_buffers p) = []"
  by (simp add: RunpyProcess_buffers_def split: option.splits)

lemma RunpyProcess_onResult_buffers:
  "RunpyProcess_onResult p f res =
     RunpyProcess_buffers p @ [CallExit f (if res \<noteq> [] then Num 0 else Null) res]"
  by (simp add: RunpyProcess_onResult_def RunpyProcess_buffers_def truthy_def)

lemma calls_of_listeners [simp]: "calls_of a (w\<lparr>listeners := ls\<rparr>) = calls_of a w"
  by (simp add: calls_of_def)

lemma buffers_killed: "RunpyProcess_buffers (p\<lparr>RunpyProcess.killed := b\<rparr>) = RunpyProcess_buffers p"
  by (simp add: RunpyProcess_buffers_def split: option.splits)

lemma buffers_onResult:
  "RunpyProcess_buffers (p\<lparr>RunpyProcess.onResult := r\<rparr>) = RunpyProcess_buffers p"
  by (simp add: RunpyProcess_buffers_def split: option.splits)

lemma buffers_result:
  "RunpyProcess_buffers (p\<lparr>RunpyProcess.result := r\<rparr>) = RunpyProcess_buffers p"
  by (simp add: RunpyProcess_buffers_def split: option.splits)

section \<open>Kill and the exit observer\<close>

text \<open>
  C4. Killing a run-program process that has received no result and has an exit
  observer \<open>f\<close> makes the process call its buffered-output observers and then \<open>f\<close>, once,
  with status \<open>null\<close> and the empty text. Killing an image-summary process calls
  nothing at all.
\<close>

theorem C4_kill_exit_observer:
  assumes "a < length (heap w)"
  shows "(heap w ! a = RunpyObj p \<and> RunpyProcess.result p = None
            \<and> RunpyProcess.onResult p = Some f \<longrightarrow>
            calls_of a (Process_kill w a)
              = calls_of a w @ RunpyProcess_buffers p @ [CallExit f Null []]
            \<and> filter is_exit (calls_of a (Process_kill w a))
              = filter is_exit (calls_of a w) @ [CallExit f Null []])
         \<and> (heap w ! a = ImgSummaryObj q \<longrightarrow> trace (Process_kill w a) = trace w)"
proof -
  have img: "heap w ! a = ImgSummaryObj q \<Longrightarrow> trace (Process_kill w a) = trace w"
    using assms by (simp add: Process_kill_def ImgSummaryProcess_kill_def commit_def)
  have run: "calls_of a (Process_kill w a)
        = calls_of a w @ RunpyProcess_buffers p @ [CallExit f Null []]"
    if "heap w ! a = RunpyObj p" and "RunpyProcess.onResult p = Some f"
    using assms that
    by (simp add: Process_kill_def RunpyProcess_kill_def calls_of_commit Let_def
        RunpyProcess_onResult_buffers buffers_killed calls_of_listeners)
  from run img show ?thesis by (simp add: is_exit_buffers)
qed

theorem C4_kill_exit_observer_witness:
  "(0::nat) < length (heap w_two) \<and> heap w_two ! 0 = RunpyObj p_run
   \<and> RunpyProcess.result p_run = None \<and> RunpyProcess.onResult p_run = Some bootstrapOnExit
   \<and> filter is_exit (calls_of 0 (Process_kill w_two 0)) = [CallExit bootstrapOnExit Null []]
   \<and> heap w_two ! 1 = ImgSummaryObj p_img
   \<and> trace (Process_kill w_two 1) = trace w_two"
  using C4_kill_exit_observer [of 0 w_two p_run bootstrapOnExit p_img]
    C4_kill_exit_observer [of 1 w_two p_run bootstrapOnExit p_img]
  by (simp add: w_two_eq p_run_def calls_of_def is_exit_buffers)

section \<open>Registering an exit observer after kill\<close>

lemma killed_unresolved_untouched:
  "killed_unresolved a p w \<Longrightarrow> untouched a w w' \<Longrightarrow> killed_unresolved a p w'"
  by (auto simp add: killed_unresolved_def untouched_def)

lemma killed_unresolved_kill:
  assumes "a < length (heap w)" and "heap w ! a = RunpyObj p" and "RunpyProcess.result p = None"
  shows "killed_unresolved a p (Process_kill w a)"
  using assms
  by (simp add: killed_unresolved_def Process_kill_def RunpyProcess_kill_def Let_def
      heap_commit listeners_commit removeEventListener_def)

lemma killed_unresolved_step:
  assumes "killed_unresolved a p w"
  shows "killed_unresolved a p (step w x)"
proof (cases "targets a x")
  case False
  from assms have "a < length (heap w)" and "eventListener a \<notin> set (listeners w)"
    by (simp_all add: killed_unresolved_def)
  with False have "untouched a w (step w x)" by (simp add: step_untouched)
  with assms show ?thesis by (rule killed_unresolved_untouched)
next
  case True
  from assms obtain p' where a: "a < length (heap w)" and h: "heap w ! a = RunpyObj p'"
    and n: "eventListener a \<notin> set (listeners w)"
    and k: "RunpyProcess.killed p'" "RunpyProcess.result p' = None"
      "RunpyProcess.output p' = RunpyProcess.output p"
      "RunpyProcess.error p' = RunpyProcess.error p"
    unfolding killed_unresolved_def by blast
  from True show ?thesis
  proof (cases rule: targets_cases)
    case (1 f)
    with a h n k show ?thesis
      by (simp add: killed_unresolved_def Process_onStdout_def RunpyProcess_onStdout_def
          heap_commit listeners_commit)
  next
    case (2 f)
    with a h n k show ?thesis
      by (simp add: killed_unresolved_def Process_onStderr_def RunpyProcess_onStderr_def
          heap_commit listeners_commit)
  next
    case 3
    with a h n k show ?thesis
      by (simp add: killed_unresolved_def Process_kill_def RunpyProcess_kill_def Let_def
          heap_commit listeners_commit removeEventListener_def)
  next
    case (4 f)
    with a h n k show ?thesis
      by (simp add: killed_unresolved_def Process_onExit_def RunpyProcess_onExit_def Let_def
          heap_commit listeners_commit)
  qed
qed

lemma killed_unresolved_exec:
  "killed_unresolved a p w \<Longrightarrow> killed_unresolved a p (exec w h)"
  by (rule exec_induct) (simp_all add: killed_unresolved_step)

text \<open>
  C10. A run-program process without a result is killed; whatever happens afterwards
  (messages, further registrations, other processes), the process stays killed and
  without a result and keeps the buffers it had, and \<open>onExit f\<close> calls at once the
  registered output observers with the buffers and then \<open>f\<close> with status \<open>null\<close> and the
  empty text.
\<close>

theorem C10_exit_after_kill:
  assumes "a < length (heap w)" and "heap w ! a = RunpyObj p" and "RunpyProcess.result p = None"
  shows "\<exists>p'. heap (exec (Process_kill w a) h) ! a = RunpyObj p'
           \<and> RunpyProcess.killed p' \<and> RunpyProcess.result p' = None
           \<and> RunpyProcess.output p' = RunpyProcess.output p
           \<and> RunpyProcess.error p' = RunpyProcess.error p
           \<and> calls_of a (Process_onExit (exec (Process_kill w a) h) a f)
               = calls_of a (exec (Process_kill w a) h)
                 @ RunpyProcess_buffers p' @ [CallExit f Null []]"
proof -
  define w' where "w' = exec (Process_kill w a) h"
  have "killed_unresolved a p w'"
    unfolding w'_def using assms by (intro killed_unresolved_exec killed_unresolved_kill)
  then obtain p' where a: "a < length (heap w')" and h: "heap w' ! a = RunpyObj p'"
    and k: "RunpyProcess.killed p'" and r: "RunpyProcess.result p' = None"
    and b: "RunpyProcess.output p' = RunpyProcess.output p"
      "RunpyProcess.error p' = RunpyProcess.error p"
    by (auto simp add: killed_unresolved_def)
  have "calls_of a (Process_onExit w' a f)
          = calls_of a w' @ RunpyProcess_buffers p' @ [CallExit f Null []]"
    using a h k r
    by (simp add: Process_onExit_def RunpyProcess_onExit_def Let_def calls_of_commit
        truthy_opt_def RunpyProcess_onResult_buffers buffers_onResult)
  with h k r b show ?thesis unfolding w'_def by blast
qed

theorem C10_exit_after_kill_witness:
  "(0::nat) < length (heap w_two) \<and> heap w_two ! 0 = RunpyObj p_run
   \<and> RunpyProcess.result p_run = None
   \<and> (\<exists>p'. heap (exec (Process_kill w_two 0)
                 [Message (mk_msg 0 RESULT ''late''), OnStdout 0 (Fn 2)]) ! 0 = RunpyObj p'
           \<and> RunpyProcess.killed p' \<and> RunpyProcess.result p' = None
           \<and> RunpyProcess.output p' = RunpyProcess.output p_run
           \<and> RunpyProcess.error p' = RunpyProcess.error p_run
           \<and> calls_of 0 (Process_onExit (exec (Process_kill w_two 0)
                 [Message (mk_msg 0 RESULT ''late''), OnStdout 0 (Fn 2)]) 0 (Fn 9))
               = calls_of 0 (exec (Process_kill w_two 0)
                   [Message (mk_msg 0 RESULT ''late''), OnStdout 0 (Fn 2)])
                 @ RunpyProcess_buffers p' @ [CallExit (Fn 9) Null []])"
proof -
  have h1: "(0::nat) < length (heap w_two)" by (simp add: w_two_eq)
  have h2: "heap w_two ! 0 = RunpyObj p_run" by (simp add: w_two_eq)
  have h3: "RunpyProcess.result p_run = None" by (simp add: p_run_def)
  from C10_exit_after_kill [OF h1 h2 h3] h1 h2 h3 show ?thesis by blast
qed

section \<open>Demultiplexing by correlation id\<close>

lemma commit_same: "commit w a (heap w ! a) [] = w"
  by (simp add: commit_def)

lemma eventListener_other_id:
  assumes "proc_id (heap w ! b) = Some B" and "PyodideWorkerResponse.id m \<noteq> B"
  shows "Process_eventListener w b m = w"
proof (cases "heap w ! b")
  case (RunpyObj p)
  with assms have "RunpyProcess_eventListener p m = (p, [])"
    by (simp add: RunpyProcess_eventListener_def)
  with RunpyObj show ?thesis
    using commit_same [of w b] by (simp add: Process_eventListener_def)
next
  case (ImgSummaryObj q)
  with assms have "ImgSummaryProcess_eventListener q m = (q, [])"
    by (simp add: ImgSummaryProcess_eventListener_def)
  with ImgSummaryObj show ?thesis
    using commit_same [of w b] by (simp add: Process_eventListener_def)
next
  case SynthObj
  then show ?thesis by (simp add: Process_eventListener_def)
qed

text \<open>
  C1. A message whose id is not the id of the process at \<open>b\<close> is delivered to the
  worker: whatever the other listeners do with it, the process at \<open>b\<close> keeps its state
  and calls no observer. Its own listener, run-program or image-summary, returns on a
  foreign id with the state as it was and no call.
\<close>

theorem C1_foreign_id_ignored:
  assumes "b < length (heap w)" and "proc_id (heap w ! b) = Some B"
    and "PyodideWorkerResponse.id m \<noteq> B"
  shows "heap (dispatchEvent w m) ! b = heap w ! b
         \<and> calls_of b (dispatchEvent w m) = calls_of b w
         \<and> (RunpyProcess.id p \<noteq> PyodideWorkerResponse.id m \<longrightarrow>
              RunpyProcess_eventListener p m = (p, []))
         \<and> (ImgSummaryProcess.id q \<noteq> PyodideWorkerResponse.id m \<longrightarrow>
              ImgSummaryProcess_eventListener q m = (q, []))"
proof -
  have "untouched b w (dispatch_loop (listeners w) m w)"
  proof (rule dispatch_loop_induct)
    show "untouched b w w" by (rule untouched_refl)
  next
    fix w' l
    assume u: "untouched b w w'" and "l \<in> set (listeners w')"
    from u assms have b': "b < length (heap w')" and id': "proc_id (heap w' ! b) = Some B"
      by (simp_all add: untouched_def)
    have "untouched b w' (invoke l m w')"
    proof (cases "l = eventListener b")
      case True
      with eventListener_other_id [OF id' assms(3)] show ?thesis
        by (simp add: invoke_def untouched_refl)
    next
      case False
      with b' show ?thesis by (rule untouched_invoke)
    qed
    with u show "untouched b w (invoke l m w')" by (rule untouched_trans)
  qed
  then have "heap (dispatchEvent w m) ! b = heap w ! b"
    and "calls_of b (dispatchEvent w m) = calls_of b w"
    by (simp_all add: dispatchEvent_def untouched_def)
  moreover have "RunpyProcess.id p \<noteq> PyodideWorkerResponse.id m \<longrightarrow>
      RunpyProcess_eventListener p m = (p, [])"
    by (simp add: RunpyProcess_eventListener_def)
  moreover have "ImgSummaryProcess.id q \<noteq> PyodideWorkerResponse.id m \<longrightarrow>
      ImgSummaryProcess_eventListener q m = (q, [])"
    by (simp add: ImgSummaryProcess_eventListener_def)
  ultimately show ?thesis by simp
qed

theorem C1_foreign_id_ignored_witness:
  "(1::nat) < length (heap w_two) \<and> proc_id (heap w_two ! 1) = Some 1
   \<and> PyodideWorkerResponse.id (mk_msg 0 RESULT ''r'') \<noteq> 1
   \<and> RunpyProcess.id (p_run\<lparr>RunpyProcess.id := 5\<rparr>) \<noteq> PyodideWorkerResponse.id (mk_msg 0 RESULT ''r'')
   \<and> ImgSummaryProcess.id p_img \<noteq> PyodideWorkerResponse.id (mk_msg 0 RESULT ''r'')
   \<and> heap (dispatchEvent w_two (mk_msg 0 RESULT ''r'')) ! 1 = heap w_two ! 1
   \<and> calls_of 1 (dispatchEvent w_two (mk_msg 0 RESULT ''r'')) = calls_of 1 w_two
   \<and> calls_of 0 (dispatchEvent w_two (mk_msg 0 RESULT ''r''))
       = [CallExit bootstrapOnExit (Num 0) ''r'']
   \<and> RunpyProcess_eventListener (p_run\<lparr>RunpyProcess.id := 5\<rparr>) (mk_msg 0 RESULT ''r'')
       = (p_run\<lparr>RunpyProcess.id := 5\<rparr>, [])
   \<and> ImgSummaryProcess_eventListener p_img (mk_msg 0 RESULT ''r'') = (p_img, [])"
proof -
  have h1: "(1::nat) < length (heap w_two)" by (simp add: w_two_eq)
  have h2: "proc_id (heap w_two ! 1) = Some 1" by (simp add: w_two_eq p_img_def)
  have h3: "PyodideWorkerResponse.id (mk_msg 0 RESULT ''r'') \<noteq> 1" by (simp add: mk_msg_def)
  have h4: "RunpyProcess.id (p_run\<lparr>RunpyProcess.id := 5\<rparr>)
      \<noteq> PyodideWorkerResponse.id (mk_msg 0 RESULT ''r'')"
    by (simp add: mk_msg_def)
  have h5: "ImgSummaryProcess.id p_img \<noteq> PyodideWorkerResponse.id (mk_msg 0 RESULT ''r'')"
    by (simp add: mk_msg_def p_img_def)
  have h6: "calls_of 0 (dispatchEvent w_two (mk_msg 0 RESULT ''r''))
       = [CallExit bootstrapOnExit (Num 0) ''r'']"
    by code_simp
  from C1_foreign_id_ignored [OF h1 h2 h3, of "p_run\<lparr>RunpyProcess.id := 5\<rparr>" p_img]
    h1 h2 h3 h4 h5 h6
  show ?thesis by simp
qed

section \<open>After termination\<close>

lemma kill_deregisters: "eventListener a \<notin> set (listeners (Process_kill w a)) \<or> 
   a \<ge> length (heap w) \<or> heap w ! a = SynthObj"
  by (simp add: Process_kill_def listeners_commit removeEventListener_def
      split: Process.splits prod.splits)

lemma length_heap_kill: "length (heap (Process_kill w a)) = length (heap w)"
  by (simp add: Process_kill_def heap_commit split: Process.splits prod.splits)

lemma listeners_eventListener: "listeners (Process_eventListener w a m) = listeners w"
  by (simp add: Process_eventListener_def listeners_commit split: Process.splits prod.splits)

lemma length_heap_eventListener:
  "length (heap (Process_eventListener w a m)) = length (heap w)"
  by (simp add: Process_eventListener_def heap_commit split: Process.splits prod.splits)

text \<open>A delivery removes no process listener.\<close>

lemma dispatch_keeps_listener:
  assumes "a < length (heap w)" and "eventListener a \<in> set (listeners w)"
  shows "eventListener a \<in> set (listeners (dispatchEvent w m))"
proof -
  have "a < length (heap (dispatch_loop (listeners w) m w))
      \<and> eventListener a \<in> set (listeners (dispatch_loop (listeners w) m w))"
  proof (rule dispatch_loop_induct)
    show "a < length (heap w) \<and> eventListener a \<in> set (listeners w)"
      using assms by simp
  next
    fix w' :: world and l
    assume p: "a < length (heap w') \<and> eventListener a \<in> set (listeners w')"
    show "a < length (heap (invoke l m w')) \<and> eventListener a \<in> set (listeners (invoke l m w'))"
    proof (cases "l = eventListener a")
      case True
      with p show ?thesis
        by (simp add: invoke_def listeners_eventListener length_heap_eventListener)
    next
      case False
      with p have "untouched a w' (invoke l m w')" by (simp add: untouched_invoke)
      with p show ?thesis by (simp add: untouched_def)
    qed
  qed
  then show ?thesis by (simp add: dispatchEvent_def)
qed

text \<open>
  C6, as the code has it. \<open>kill\<close> takes the listener of a run-program or image-summary
  process off the worker, and from then on no message and no action on another process
  changes its state or makes it call an observer. The delivery of a message, a
  \<open>RESULT\<close> included, leaves a registered listener registered.
\<close>

theorem C6_after_kill:
  assumes "a < length (heap w)" and "proc_id (heap w ! a) = Some i"
    and "\<forall>x \<in> set h. \<not> targets a x"
  shows "eventListener a \<notin> set (listeners (Process_kill w a))
         \<and> heap (exec (Process_kill w a) h) ! a = heap (Process_kill w a) ! a
         \<and> calls_of a (exec (Process_kill w a) h) = calls_of a (Process_kill w a)
         \<and> (eventListener a \<in> set (listeners w) \<longrightarrow>
              eventListener a \<in> set (listeners (dispatchEvent w m)))"
proof -
  from assms(1,2) have n: "eventListener a \<notin> set (listeners (Process_kill w a))"
    using kill_deregisters [of a w] by auto
  from assms(1) have "a < length (heap (Process_kill w a))"
    by (simp add: length_heap_kill)
  from exec_untouched [OF this n assms(3)]
  have "heap (exec (Process_kill w a) h) ! a = heap (Process_kill w a) ! a"
    and "calls_of a (exec (Process_kill w a) h) = calls_of a (Process_kill w a)"
    by (simp_all add: untouched_def)
  with n dispatch_keeps_listener [OF assms(1)] show ?thesis by simp
qed

theorem C6_after_kill_witness:
  "(0::nat) < length (heap w_two) \<and> proc_id (heap w_two ! 0) = Some 0
   \<and> eventListener 0 \<in> set (listeners w_two)
   \<and> eventListener 0 \<notin> set (listeners (Process_kill w_two 0))
   \<and> heap (exec (Process_kill w_two 0) h_late) ! 0 = heap (Process_kill w_two 0) ! 0
   \<and> calls_of 0 (exec (Process_kill w_two 0) h_late) = calls_of 0 (Process_kill w_two 0)
   \<and> eventListener 0 \<in> set (listeners (dispatchEvent w_two (mk_msg 0 RESULT ''r'')))"
proof -
  have h1: "(0::nat) < length (heap w_two)" by (simp add: w_two_eq)
  have h2: "proc_id (heap w_two ! 0) = Some 0" by (simp add: w_two_eq p_run_def)
  have h3: "\<forall>x \<in> set h_late. \<not> targets 0 x" by (simp add: h_late_def)
  have h4: "eventListener 0 \<in> set (listeners w_two)" by (simp add: w_two_eq)
  from C6_after_kill [OF h1 h2 h3, of "mk_msg 0 RESULT ''r''"] h1 h2 h3 h4
  show ?thesis by simp
qed

theorem C6_counterexample:
  "eventListener 0 \<in> set (listeners (exec w_two [Message (mk_msg 0 RESULT ''r'')]))
   \<and> heap (exec w_two [Message (mk_msg 0 RESULT ''r'')]) ! 0
       = RunpyObj (p_run\<lparr>RunpyProcess.result := Some ''r''\<rparr>)
   \<and> heap (exec w_two [Message (mk_msg 0 RESULT ''r''), Message (mk_msg 0 STDOUT ''late''),
         Message (mk_msg 0 RESULT ''s'')]) ! 0
       = RunpyObj (p_run\<lparr>RunpyProcess.result := Some ''s'', RunpyProcess.output := ''late''\<rparr>)
   \<and> calls_of 0 (exec w_two [Message (mk_msg 0 RESULT ''r''), Message (mk_msg 0 STDOUT ''late''),
         Message (mk_msg 0 RESULT ''s'')])
       = [CallExit bootstrapOnExit (Num 0) ''r'', CallExit bootstrapOnExit (Num 0) ''s'']"
  by code_simp

section \<open>The placeholder\<close>

lemma synth_methods:
  assumes "heap w ! a = SynthObj"
  shows "Process_kill w a = w" and "Process_onStdout w a f = w"
    and "Process_onStderr w a f = w" and "Process_onExit w a f = w"
    and "Process_eventListener w a m = w"
  using assms
  by (simp_all add: Process_kill_def Process_onStdout_def Process_onStderr_def
      Process_onExit_def Process_eventListener_def)

lemma synth_dispatch:
  assumes "a < length (heap w)" and "heap w ! a = SynthObj"
  shows "untouched a w (dispatchEvent w m)"
  unfolding dispatchEvent_def
proof (rule dispatch_loop_induct)
  show "untouched a w w" by (rule untouched_refl)
next
  fix w' l
  assume u: "untouched a w w'" and "l \<in> set (listeners w')"
  from u assms have a': "a < length (heap w')" and s': "heap w' ! a = SynthObj"
    by (simp_all add: untouched_def)
  have "untouched a w' (invoke l m w')"
  proof (cases "l = eventListener a")
    case True
    with s' show ?thesis by (simp add: invoke_def synth_methods untouched_refl)
  next
    case False
    with a' show ?thesis by (rule untouched_invoke)
  qed
  with u show "untouched a w (invoke l m w')" by (rule untouched_trans)
qed

lemma synth_step:
  assumes "a < length (heap w)" and "heap w ! a = SynthObj"
  shows "untouched a w (step w x)"
proof (cases "targets a x")
  case True
  then show ?thesis
    by (cases rule: targets_cases) (simp_all add: synth_methods assms untouched_refl)
next
  case False
  show ?thesis
  proof (cases "\<exists>m. x = Message m")
    case True
    with assms show ?thesis by (auto simp add: synth_dispatch)
  next
    case False
    with assms \<open>\<not> targets a x\<close> show ?thesis by (simp add: step_untouched)
  qed
qed

lemma synth_exec:
  assumes "a < length (heap w)" and "heap w ! a = SynthObj"
  shows "untouched a w (exec w h)"
proof (rule exec_induct)
  show "untouched a w w" by (rule untouched_refl)
next
  fix w' x
  assume u: "untouched a w w'"
  from u assms have "a < length (heap w')" and "heap w' ! a = SynthObj"
    by (simp_all add: untouched_def)
  then have "untouched a w' (step w' x)" by (rule synth_step)
  with u show "untouched a w (step w' x)" by (rule untouched_trans)
qed

text \<open>
  C7. While \<open>pyodideLoaded\<close> is false both factories return, without an exception, a
  fresh \<open>SynthProcess\<close> and change nothing else: nothing is posted to the worker and no
  listener is registered. On that object \<open>kill\<close>, \<open>onStdout\<close>, \<open>onStderr\<close> and \<open>onExit\<close>
  leave the whole state as it is, and in every later history the object stays a
  placeholder and calls no observer.
\<close>

theorem C7_gate_closed:
  assumes "\<not> pyodideLoaded w"
  shows "runProgram w s = Inr (length (heap w), w\<lparr>heap := heap w @ [SynthObj]\<rparr>)
         \<and> runImgSummary w s ln v = (length (heap w), w\<lparr>heap := heap w @ [SynthObj]\<rparr>)
         \<and> posted (w\<lparr>heap := heap w @ [SynthObj]\<rparr>) = posted w
         \<and> listeners (w\<lparr>heap := heap w @ [SynthObj]\<rparr>) = listeners w
         \<and> trace (w\<lparr>heap := heap w @ [SynthObj]\<rparr>) = trace w
         \<and> Process_kill (w\<lparr>heap := heap w @ [SynthObj]\<rparr>) (length (heap w))
             = w\<lparr>heap := heap w @ [SynthObj]\<rparr>
         \<and> Process_onStdout (w\<lparr>heap := heap w @ [SynthObj]\<rparr>) (length (heap w)) f
             = w\<lparr>heap := heap w @ [SynthObj]\<rparr>
         \<and> Process_onStderr (w\<lparr>heap := heap w @ [SynthObj]\<rparr>) (length (heap w)) f
             = w\<lparr>heap := heap w @ [SynthObj]\<rparr>
         \<and> Process_onExit (w\<lparr>heap := heap w @ [SynthObj]\<rparr>) (length (heap w)) f
             = w\<lparr>heap := heap w @ [SynthObj]\<rparr>
         \<and> heap (exec (w\<lparr>heap := heap w @ [SynthObj]\<rparr>) h) ! length (heap w) = SynthObj
         \<and> calls_of (length (heap w)) (exec (w\<lparr>heap := heap w @ [SynthObj]\<rparr>) h)
             = calls_of (length (heap w)) w"
proof -
  define w' where "w' = w\<lparr>heap := heap w @ [SynthObj]\<rparr>"
  define a where "a = length (heap w)"
  have a: "a < length (heap w')" and s: "heap w' ! a = SynthObj"
    by (simp_all add: w'_def a_def)
  have f: "runProgram w s = Inr (a, w')" "runImgSummary w s ln v = (a, w')"
    using assms by (simp_all add: runProgram_def runImgSummary_def new_SynthProcess_def w'_def a_def)
  have e: "posted w' = posted w" "listeners w' = listeners w" "trace w' = trace w"
    by (simp_all add: w'_def)
  have c: "calls_of a w' = calls_of a w" by (simp add: calls_of_def w'_def)
  from synth_exec [OF a s, of h] s c
  have "heap (exec w' h) ! a = SynthObj" and "calls_of a (exec w' h) = calls_of a w"
    by (simp_all add: untouched_def)
  with f e synth_methods(1-4) [OF s] show ?thesis
    unfolding w'_def a_def by simp
qed

theorem C7_gate_closed_witness:
  "\<not> pyodideLoaded w_start
   \<and> runProgram w_start ''x = 2'' = Inr (0, w_start\<lparr>heap := [SynthObj]\<rparr>)
   \<and> runImgSummary w_start ''x = 2'' 1 ''x'' = (0, w_start\<lparr>heap := [SynthObj]\<rparr>)
   \<and> posted (w_start\<lparr>heap := [SynthObj]\<rparr>) = []
   \<and> listeners (w_start\<lparr>heap := [SynthObj]\<rparr>) = [pyodideWorkerInitListener]
   \<and> Process_kill (w_start\<lparr>heap := [SynthObj]\<rparr>) 0 = w_start\<lparr>heap := [SynthObj]\<rparr>
   \<and> Process_onExit (w_start\<lparr>heap := [SynthObj]\<rparr>) 0 (Fn 1) = w_start\<lparr>heap := [SynthObj]\<rparr>
   \<and> calls_of 0 (exec (w_start\<lparr>heap := [SynthObj]\<rparr>)
        [OnExit 0 (Fn 1), Message (mk_msg 0 LOADED []), Message (mk_msg 0 RESULT ''r''), Kill 0])
       = []"
proof -
  have h: "\<not> pyodideLoaded w_start" by (simp add: w_start_def init_world_def)
  have e: "heap w_start = []" "posted w_start = []" "trace w_start = []"
    "listeners w_start = [pyodideWorkerInitListener]"
    by (simp_all add: w_start_def init_world_def)
  from C7_gate_closed [OF h, of "''x = 2''" 1 "''x''" "Fn 1"
      "[OnExit 0 (Fn 1), Message (mk_msg 0 LOADED []), Message (mk_msg 0 RESULT ''r''), Kill 0]"]
    h e
  show ?thesis by (simp add: calls_of_def del: exec.simps)
qed

section \<open>The image-summary variant after kill\<close>

lemma img_listener_facts:
  assumes "\<not> (PyodideWorkerResponse.type m = RESULT
      \<and> PyodideWorkerResponse.id m = ImgSummaryProcess.id q)"
  shows "ImgSummaryProcess.result (fst (ImgSummaryProcess_eventListener q m))
           = ImgSummaryProcess.result q"
    and "ImgSummaryProcess.id (fst (ImgSummaryProcess_eventListener q m))
           = ImgSummaryProcess.id q"
    and "filter is_exit (snd (ImgSummaryProcess_eventListener q m)) = []"
  using assms
  by (cases "PyodideWorkerResponse.type m";
      simp add: ImgSummaryProcess_eventListener_def Let_def split: option.splits)+

lemma img_onStdout_facts:
  "ImgSummaryProcess.result (fst (ImgSummaryProcess_onStdout q f)) = ImgSummaryProcess.result q"
  "ImgSummaryProcess.id (fst (ImgSummaryProcess_onStdout q f)) = ImgSummaryProcess.id q"
  "filter is_exit (snd (ImgSummaryProcess_onStdout q f)) = []"
  by (simp_all add: ImgSummaryProcess_onStdout_def Let_def)

lemma img_onStderr_facts:
  "ImgSummaryProcess.result (fst (ImgSummaryProcess_onStderr q f)) = ImgSummaryProcess.result q"
  "ImgSummaryProcess.id (fst (ImgSummaryProcess_onStderr q f)) = ImgSummaryProcess.id q"
  "filter is_exit (snd (ImgSummaryProcess_onStderr q f)) = []"
  by (simp_all add: ImgSummaryProcess_onStderr_def Let_def)

lemma img_onExit_facts:
  "ImgSummaryProcess.result (fst (ImgSummaryProcess_onExit q f)) = ImgSummaryProcess.result q"
  "ImgSummaryProcess.id (fst (ImgSummaryProcess_onExit q f)) = ImgSummaryProcess.id q"
  "snd (ImgSummaryProcess_onExit q f) =
     (case ImgSummaryProcess.result q of
        None \<Rightarrow> []
      | Some r \<Rightarrow> if r \<noteq> [] then [CallExit f (Num 0) r] else [])"
  by (simp_all add: ImgSummaryProcess_onExit_def ImgSummaryProcess_onResult_def Let_def
      truthy_opt_def truthy_def split: option.splits)

lemma img_onExit_falsy:
  "\<not> truthy_opt (ImgSummaryProcess.result q) \<Longrightarrow> snd (ImgSummaryProcess_onExit q f) = []"
  by (simp add: img_onExit_facts truthy_opt_def truthy_def split: option.splits)

lemma img_frozen_untouched:
  "img_frozen a r c w \<Longrightarrow> untouched a w w' \<Longrightarrow> img_frozen a r c w'"
  by (simp add: img_frozen_def untouched_def)

lemma img_frozen_step:
  assumes "img_frozen a r c w"
  shows "img_frozen a r c (step w x)"
proof (cases "targets a x")
  case False
  from assms have "a < length (heap w)" and "eventListener a \<notin> set (listeners w)"
    by (simp_all add: img_frozen_def)
  with False have "untouched a w (step w x)" by (simp add: step_untouched)
  with assms show ?thesis by (rule img_frozen_untouched)
next
  case True
  from assms obtain q where a: "a < length (heap w)" and h: "heap w ! a = ImgSummaryObj q"
    and n: "eventListener a \<notin> set (listeners w)"
    and r: "ImgSummaryProcess.result q = r"
    and c: "\<not> truthy_opt r \<longrightarrow> filter is_exit (calls_of a w) = c"
    unfolding img_frozen_def by blast
  from True show ?thesis
  proof (cases rule: targets_cases)
    case (1 f)
    with a h n r c show ?thesis
      by (simp add: img_frozen_def Process_onStdout_def case_prod_beta heap_commit
          listeners_commit calls_of_commit img_onStdout_facts)
  next
    case (2 f)
    with a h n r c show ?thesis
      by (simp add: img_frozen_def Process_onStderr_def case_prod_beta heap_commit
          listeners_commit calls_of_commit img_onStderr_facts)
  next
    case 3
    with a h n r c show ?thesis
      by (simp add: img_frozen_def Process_kill_def ImgSummaryProcess_kill_def heap_commit
          listeners_commit calls_of_commit removeEventListener_def)
  next
    case (4 f)
    with a h n r c show ?thesis
      by (simp add: img_frozen_def Process_onExit_def case_prod_beta heap_commit
          listeners_commit calls_of_commit img_onExit_facts(1) img_onExit_falsy)
  qed
qed

lemma img_frozen_exec: "img_frozen a r c w \<Longrightarrow> img_frozen a r c (exec w h)"
  by (rule exec_induct) (simp_all add: img_frozen_step)

lemma img_frozen_kill:
  assumes "a < length (heap w)" and "heap w ! a = ImgSummaryObj q"
  shows "img_frozen a (ImgSummaryProcess.result q) (filter is_exit (calls_of a w))
           (Process_kill w a)"
  using assms
  by (simp add: img_frozen_def Process_kill_def ImgSummaryProcess_kill_def heap_commit
      listeners_commit calls_of_commit removeEventListener_def)

text \<open>
  C5, as the code has it. After \<open>kill\<close> of an image-summary process, and whatever
  happens then, \<open>onExit f\<close> calls \<open>f\<close> at once, with status \<open>0\<close> and the stored text,
  exactly if a non-empty result text had been stored before the kill. If none had,
  no exit observer of the process is called in any history after the kill.
\<close>

theorem C5_exit_observer_after_kill:
  assumes "a < length (heap w)" and "heap w ! a = ImgSummaryObj q"
  shows "calls_of a (Process_onExit (exec (Process_kill w a) h) a f)
           = calls_of a (exec (Process_kill w a) h)
             @ (case ImgSummaryProcess.result q of
                  None \<Rightarrow> []
                | Some r \<Rightarrow> if r \<noteq> [] then [CallExit f (Num 0) r] else [])
         \<and> (\<not> truthy_opt (ImgSummaryProcess.result q) \<longrightarrow>
              filter is_exit (calls_of a (exec (Process_kill w a) h))
                = filter is_exit (calls_of a w))"
proof -
  define w' where "w' = exec (Process_kill w a) h"
  have "img_frozen a (ImgSummaryProcess.result q) (filter is_exit (calls_of a w)) w'"
    unfolding w'_def using assms by (intro img_frozen_exec img_frozen_kill)
  then obtain q' where a: "a < length (heap w')" and h: "heap w' ! a = ImgSummaryObj q'"
    and r: "ImgSummaryProcess.result q' = ImgSummaryProcess.result q"
    and c: "\<not> truthy_opt (ImgSummaryProcess.result q) \<longrightarrow>
        filter is_exit (calls_of a w') = filter is_exit (calls_of a w)"
    unfolding img_frozen_def by blast
  from a h r have "calls_of a (Process_onExit w' a f)
           = calls_of a w'
             @ (case ImgSummaryProcess.result q of
                  None \<Rightarrow> []
                | Some r \<Rightarrow> if r \<noteq> [] then [CallExit f (Num 0) r] else [])"
    by (simp add: Process_onExit_def case_prod_beta calls_of_commit img_onExit_facts(3))
  with c show ?thesis unfolding w'_def by simp
qed

theorem C5_exit_observer_after_kill_witness:
  "(1::nat) < length (heap w_two) \<and> heap w_two ! 1 = ImgSummaryObj p_img
   \<and> \<not> truthy_opt (ImgSummaryProcess.result p_img)
   \<and> calls_of 1 (Process_onExit (exec (Process_kill w_two 1) h_after) 1 (Fn 9))
       = calls_of 1 (exec (Process_kill w_two 1) h_after)
   \<and> filter is_exit (calls_of 1 (exec (Process_kill w_two 1) h_after)) = []"
proof -
  have h1: "(1::nat) < length (heap w_two)" by (simp add: w_two_eq)
  have h2: "heap w_two ! 1 = ImgSummaryObj p_img" by (simp add: w_two_eq)
  have h3: "\<not> truthy_opt (ImgSummaryProcess.result p_img)"
    by (simp add: p_img_def truthy_opt_def)
  have h4: "ImgSummaryProcess.result p_img = None" by (simp add: p_img_def)
  have h5: "calls_of 1 w_two = []" by (simp add: w_two_eq calls_of_def)
  from C5_exit_observer_after_kill [OF h1 h2, of h_after "Fn 9"] h1 h2 h3 h4 h5
  show ?thesis by simp
qed

theorem C5_counterexample:
  "calls_of 1 (exec w_two [Message (mk_msg 1 RESULT ''r''), Kill 1, OnExit 1 (Fn 8)])
     = [CallExit (Fn 7) (Num 0) ''r'', CallExit (Fn 8) (Num 0) ''r'']
   \<and> calls_of 1 (exec w_two [Message (mk_msg 1 RESULT ''r''), Kill 1])
     = [CallExit (Fn 7) (Num 0) ''r'']"
  by code_simp

section \<open>Exceptions of the image-summary variant\<close>

lemma img_unresolved_untouched:
  "img_unresolved a i c w \<Longrightarrow> untouched a w w' \<Longrightarrow> img_unresolved a i c w'"
  by (simp add: img_unresolved_def untouched_def)

lemma img_unresolved_listener:
  assumes "img_unresolved a i c w" and "no_result_for i (Message m)"
  shows "img_unresolved a i c (Process_eventListener w a m)"
proof -
  from assms(1) obtain q where a: "a < length (heap w)" and h: "heap w ! a = ImgSummaryObj q"
    and i: "ImgSummaryProcess.id q = i" and r: "ImgSummaryProcess.result q = None"
    and c: "filter is_exit (calls_of a w) = c"
    unfolding img_unresolved_def by blast
  from assms(2) i have "\<not> (PyodideWorkerResponse.type m = RESULT
      \<and> PyodideWorkerResponse.id m = ImgSummaryProcess.id q)"
    by simp
  from img_listener_facts [OF this] a h i r c show ?thesis
    by (simp add: img_unresolved_def Process_eventListener_def case_prod_beta heap_commit
        calls_of_commit)
qed

lemma img_unresolved_dispatch:
  assumes "img_unresolved a i c w" and "no_result_for i (Message m)"
  shows "img_unresolved a i c (dispatchEvent w m)"
  unfolding dispatchEvent_def
proof (rule dispatch_loop_induct)
  show "img_unresolved a i c w" by (rule assms(1))
next
  fix w' l
  assume u: "img_unresolved a i c w'"
  show "img_unresolved a i c (invoke l m w')"
  proof (cases "l = eventListener a")
    case True
    with img_unresolved_listener [OF u assms(2)] show ?thesis by (simp add: invoke_def)
  next
    case False
    from u have "a < length (heap w')" by (simp add: img_unresolved_def)
    from untouched_invoke [OF this False] u show ?thesis
      using img_unresolved_untouched by blast
  qed
qed

lemma img_unresolved_step:
  assumes "img_unresolved a i c w" and "no_result_for i x"
  shows "img_unresolved a i c (step w x)"
proof (cases "targets a x")
  case True
  from assms(1) obtain q where a: "a < length (heap w)" and h: "heap w ! a = ImgSummaryObj q"
    and i: "ImgSummaryProcess.id q = i" and r: "ImgSummaryProcess.result q = None"
    and c: "filter is_exit (calls_of a w) = c"
    unfolding img_unresolved_def by blast
  from True show ?thesis
  proof (cases rule: targets_cases)
    case (1 f)
    with a h i r c show ?thesis
      by (simp add: img_unresolved_def Process_onStdout_def case_prod_beta heap_commit
          calls_of_commit img_onStdout_facts)
  next
    case (2 f)
    with a h i r c show ?thesis
      by (simp add: img_unresolved_def Process_onStderr_def case_prod_beta heap_commit
          calls_of_commit img_onStderr_facts)
  next
    case 3
    with a h i r c show ?thesis
      by (simp add: img_unresolved_def Process_kill_def ImgSummaryProcess_kill_def heap_commit
          calls_of_commit)
  next
    case (4 f)
    with a h i r c show ?thesis
      by (simp add: img_unresolved_def Process_onExit_def case_prod_beta heap_commit
          calls_of_commit img_onExit_facts)
  qed
next
  case False
  show ?thesis
  proof (cases "\<exists>m. x = Message m")
    case True
    with assms show ?thesis by (auto simp add: img_unresolved_dispatch simp del: no_result_for.simps)
  next
    case nm: False
    from assms(1) have "a < length (heap w)" by (simp add: img_unresolved_def)
    with False nm have "untouched a w (step w x)" by (simp add: step_untouched)
    with assms(1) show ?thesis by (rule img_unresolved_untouched)
  qed
qed

lemma img_unresolved_exec:
  assumes "img_unresolved a i c w" and "\<forall>x \<in> set h. no_result_for i x"
  shows "img_unresolved a i c (exec w h)"
proof (rule exec_induct)
  show "img_unresolved a i c w" by (rule assms(1))
next
  fix w' x
  assume "img_unresolved a i c w'" and "x \<in> set h"
  with assms(2) show "img_unresolved a i c (step w' x)" by (simp add: img_unresolved_step)
qed

text \<open>
  C8. For an image-summary process a matching \<open>EXCEPTION\<close> appends the text to the
  error buffer, forwards it to a registered stderr observer, and does nothing else;
  a matching \<open>RESULT\<close> stores the text as the result. In a history that delivers no
  \<open>RESULT\<close> tagged with the id of the process, whatever else it delivers or does, a
  process without a result stays without one and no exit observer of it is called.
\<close>

theorem C8_exception_not_terminal:
  "(PyodideWorkerResponse.id m = ImgSummaryProcess.id q
      \<and> PyodideWorkerResponse.type m = EXCEPTION \<longrightarrow>
      ImgSummaryProcess_eventListener q m
        = (q\<lparr>ImgSummaryProcess.error := ImgSummaryProcess.error q @ msg m\<rparr>,
           case ImgSummaryProcess.onError q of None \<Rightarrow> [] | Some g \<Rightarrow> [CallData g (msg m)]))
   \<and> (PyodideWorkerResponse.id m = ImgSummaryProcess.id q
      \<and> PyodideWorkerResponse.type m = RESULT \<longrightarrow>
      ImgSummaryProcess.result (fst (ImgSummaryProcess_eventListener q m)) = Some (msg m))
   \<and> (a < length (heap w) \<and> heap w ! a = ImgSummaryObj q
      \<and> ImgSummaryProcess.result q = None
      \<and> (\<forall>x \<in> set h. no_result_for (ImgSummaryProcess.id q) x) \<longrightarrow>
      (\<exists>q'. heap (exec w h) ! a = ImgSummaryObj q' \<and> ImgSummaryProcess.result q' = None)
      \<and> filter is_exit (calls_of a (exec w h)) = filter is_exit (calls_of a w))"
proof -
  have e: "ImgSummaryProcess_eventListener q m
        = (q\<lparr>ImgSummaryProcess.error := ImgSummaryProcess.error q @ msg m\<rparr>,
           case ImgSummaryProcess.onError q of None \<Rightarrow> [] | Some g \<Rightarrow> [CallData g (msg m)])"
    if "PyodideWorkerResponse.id m = ImgSummaryProcess.id q"
      and "PyodideWorkerResponse.type m = EXCEPTION"
    using that by (simp add: ImgSummaryProcess_eventListener_def Let_def)
  have r: "ImgSummaryProcess.result (fst (ImgSummaryProcess_eventListener q m)) = Some (msg m)"
    if "PyodideWorkerResponse.id m = ImgSummaryProcess.id q"
      and "PyodideWorkerResponse.type m = RESULT"
    using that by (simp add: ImgSummaryProcess_eventListener_def Let_def)
  have u: "(\<exists>q'. heap (exec w h) ! a = ImgSummaryObj q' \<and> ImgSummaryProcess.result q' = None)
      \<and> filter is_exit (calls_of a (exec w h)) = filter is_exit (calls_of a w)"
    if "a < length (heap w)" and "heap w ! a = ImgSummaryObj q"
      and "ImgSummaryProcess.result q = None"
      and n: "\<forall>x \<in> set h. no_result_for (ImgSummaryProcess.id q) x"
  proof -
    from that have "img_unresolved a (ImgSummaryProcess.id q) (filter is_exit (calls_of a w)) w"
      by (simp add: img_unresolved_def)
    from img_unresolved_exec [OF this n] show ?thesis
      unfolding img_unresolved_def by blast
  qed
  from e r u show ?thesis by blast
qed

theorem C8_exception_not_terminal_witness:
  "PyodideWorkerResponse.id (mk_msg 1 EXCEPTION ''boom'') = ImgSummaryProcess.id p_img
   \<and> PyodideWorkerResponse.type (mk_msg 1 EXCEPTION ''boom'') = EXCEPTION
   \<and> ImgSummaryProcess_eventListener p_img (mk_msg 1 EXCEPTION ''boom'')
       = (p_img\<lparr>ImgSummaryProcess.error := ''boom''\<rparr>, [])
   \<and> (1::nat) < length (heap w_two) \<and> heap w_two ! 1 = ImgSummaryObj p_img
   \<and> ImgSummaryProcess.result p_img = None
   \<and> list_all (no_result_for (ImgSummaryProcess.id p_img)) h_exceptions
   \<and> (\<exists>q'. heap (exec w_two h_exceptions) ! 1 = ImgSummaryObj q'
         \<and> ImgSummaryProcess.result q' = None)
   \<and> filter is_exit (calls_of 1 (exec w_two h_exceptions)) = []
   \<and> PyodideWorkerResponse.id (mk_msg 1 RESULT ''r'') = ImgSummaryProcess.id p_img
   \<and> PyodideWorkerResponse.type (mk_msg 1 RESULT ''r'') = RESULT
   \<and> ImgSummaryProcess.result (fst (ImgSummaryProcess_eventListener p_img (mk_msg 1 RESULT ''r'')))
       = Some ''r''"
proof -
  have h1: "PyodideWorkerResponse.id (mk_msg 1 EXCEPTION ''boom'') = ImgSummaryProcess.id p_img"
    "PyodideWorkerResponse.type (mk_msg 1 EXCEPTION ''boom'') = EXCEPTION"
    "PyodideWorkerResponse.id (mk_msg 1 RESULT ''r'') = ImgSummaryProcess.id p_img"
    "PyodideWorkerResponse.type (mk_msg 1 RESULT ''r'') = RESULT"
    "msg (mk_msg 1 EXCEPTION ''boom'') = ''boom''" "msg (mk_msg 1 RESULT ''r'') = ''r''"
    by (simp_all add: mk_msg_def p_img_def)
  have h2: "(1::nat) < length (heap w_two)" "heap w_two ! 1 = ImgSummaryObj p_img"
    "calls_of 1 w_two = []"
    by (simp_all add: w_two_eq calls_of_def)
  have h3: "ImgSummaryProcess.result p_img = None" "ImgSummaryProcess.onError p_img = None"
    "ImgSummaryProcess.error p_img = []"
    by (simp_all add: p_img_def)
  have h4: "\<forall>x \<in> set h_exceptions. no_result_for (ImgSummaryProcess.id p_img) x"
    by (simp add: h_exceptions_def p_img_def mk_msg_def)
  from C8_exception_not_terminal [of "mk_msg 1 EXCEPTION ''boom''" p_img 1 w_two h_exceptions]
    C8_exception_not_terminal [of "mk_msg 1 RESULT ''r''" p_img 1 w_two h_exceptions]
    h1 h2 h3 h4
  show ?thesis by (simp add: list_all_iff)
qed

section \<open>The status passed to the exit observer\<close>

lemma exit_code_ok_Runpy: "exit_code_ok (RunpyObj p) c = exit_code_ok (RunpyObj p') c"
  by (cases c) simp_all

lemma exit_code_ok_ImgSummary:
  "exit_code_ok (ImgSummaryObj q) c = exit_code_ok (ImgSummaryObj q') c"
  by (cases c) simp_all

lemma trace_ok_commit_Runpy:
  assumes "trace_ok w" and "a < length (heap w)" and "heap w ! a = RunpyObj p"
    and "\<And>c. c \<in> set cs \<Longrightarrow> exit_code_ok (RunpyObj p') c"
  shows "trace_ok (commit w a (RunpyObj p') cs)"
  using assms exit_code_ok_Runpy [of p' _ p]
  by (auto simp add: trace_ok_def commit_def nth_list_update)

lemma trace_ok_commit_ImgSummary:
  assumes "trace_ok w" and "a < length (heap w)" and "heap w ! a = ImgSummaryObj q"
    and "\<And>c. c \<in> set cs \<Longrightarrow> exit_code_ok (ImgSummaryObj q') c"
  shows "trace_ok (commit w a (ImgSummaryObj q') cs)"
  using assms exit_code_ok_ImgSummary [of q' _ q]
  by (auto simp add: trace_ok_def commit_def nth_list_update)

lemma runpy_onResult_ok:
  "c \<in> set (RunpyProcess_onResult p f r) \<Longrightarrow> exit_code_ok (RunpyObj p') c"
  by (auto simp add: RunpyProcess_onResult_def truthy_def split: option.splits)

lemma img_onResult_ok:
  "c \<in> set (ImgSummaryProcess_onResult f r) \<Longrightarrow> exit_code_ok (ImgSummaryObj q') c"
  by (simp add: ImgSummaryProcess_onResult_def truthy_def)

lemma runpy_eventListener_ok:
  "c \<in> set (snd (RunpyProcess_eventListener p m)) \<Longrightarrow> exit_code_ok (RunpyObj p') c"
  by (cases "PyodideWorkerResponse.type m")
    (auto simp add: RunpyProcess_eventListener_def Let_def
      split: option.splits if_splits dest: runpy_onResult_ok)

lemma runpy_onStdout_ok:
  "c \<in> set (snd (RunpyProcess_onStdout p f)) \<Longrightarrow> exit_code_ok (RunpyObj p') c"
  by (simp add: RunpyProcess_onStdout_def)

lemma runpy_onStderr_ok:
  "c \<in> set (snd (RunpyProcess_onStderr p f)) \<Longrightarrow> exit_code_ok (RunpyObj p') c"
  by (simp add: RunpyProcess_onStderr_def)

lemma runpy_kill_ok:
  "c \<in> set (snd (RunpyProcess_kill p)) \<Longrightarrow> exit_code_ok (RunpyObj p') c"
  by (auto simp add: RunpyProcess_kill_def Let_def split: option.splits dest: runpy_onResult_ok)

lemma runpy_onExit_ok:
  "c \<in> set (snd (RunpyProcess_onExit p f)) \<Longrightarrow> exit_code_ok (RunpyObj p') c"
  by (auto simp add: RunpyProcess_onExit_def Let_def split: if_splits dest: runpy_onResult_ok)

lemma img_eventListener_ok:
  "c \<in> set (snd (ImgSummaryProcess_eventListener q m)) \<Longrightarrow> exit_code_ok (ImgSummaryObj q') c"
  by (cases "PyodideWorkerResponse.type m")
    (auto simp add: ImgSummaryProcess_eventListener_def Let_def
      split: option.splits if_splits dest: img_onResult_ok)

lemma img_onStdout_ok:
  "c \<in> set (snd (ImgSummaryProcess_onStdout q f)) \<Longrightarrow> exit_code_ok (ImgSummaryObj q') c"
  by (auto simp add: ImgSummaryProcess_onStdout_def Let_def split: if_splits)

lemma img_onStderr_ok:
  "c \<in> set (snd (ImgSummaryProcess_onStderr q f)) \<Longrightarrow> exit_code_ok (ImgSummaryObj q') c"
  by (auto simp add: ImgSummaryProcess_onStderr_def Let_def split: if_splits)

lemma img_onExit_ok:
  "c \<in> set (snd (ImgSummaryProcess_onExit q f)) \<Longrightarrow> exit_code_ok (ImgSummaryObj q') c"
  by (auto simp add: ImgSummaryProcess_onExit_def Let_def split: if_splits dest: img_onResult_ok)

lemma trace_ok_onStdout:
  assumes "trace_ok w"
  shows "trace_ok (Process_onStdout w a f)"
proof (cases "a < length (heap w)")
  case False
  with assms show ?thesis by (simp add: Process_onStdout_def)
next
  case True
  show ?thesis
  proof (cases "heap w ! a")
    case (RunpyObj p)
    with True trace_ok_commit_Runpy [OF assms True RunpyObj runpy_onStdout_ok] show ?thesis
      by (simp add: Process_onStdout_def case_prod_beta)
  next
    case (ImgSummaryObj q)
    with True trace_ok_commit_ImgSummary [OF assms True ImgSummaryObj img_onStdout_ok]
    show ?thesis by (simp add: Process_onStdout_def case_prod_beta)
  next
    case SynthObj
    with True assms show ?thesis by (simp add: Process_onStdout_def)
  qed
qed

lemma trace_ok_onStderr:
  assumes "trace_ok w"
  shows "trace_ok (Process_onStderr w a f)"
proof (cases "a < length (heap w)")
  case False
  with assms show ?thesis by (simp add: Process_onStderr_def)
next
  case True
  show ?thesis
  proof (cases "heap w ! a")
    case (RunpyObj p)
    with True trace_ok_commit_Runpy [OF assms True RunpyObj runpy_onStderr_ok] show ?thesis
      by (simp add: Process_onStderr_def case_prod_beta)
  next
    case (ImgSummaryObj q)
    with True trace_ok_commit_ImgSummary [OF assms True ImgSummaryObj img_onStderr_ok]
    show ?thesis by (simp add: Process_onStderr_def case_prod_beta)
  next
    case SynthObj
    with True assms show ?thesis by (simp add: Process_onStderr_def)
  qed
qed

lemma trace_ok_listeners: "trace_ok (w\<lparr>listeners := ls\<rparr>) = trace_ok w"
  by (simp add: trace_ok_def)

lemma trace_ok_fetches: "trace_ok (w\<lparr>fetches := fs\<rparr>) = trace_ok w"
  by (simp add: trace_ok_def)

lemma trace_ok_kill:
  assumes "trace_ok w"
  shows "trace_ok (Process_kill w a)"
proof (cases "a < length (heap w)")
  case False
  with assms show ?thesis by (simp add: Process_kill_def)
next
  case True
  define w1 where "w1 = w\<lparr>listeners := removeEventListener (listeners w) (eventListener a)\<rparr>"
  have t1: "trace_ok w1" and a1: "a < length (heap w1)" and h1: "heap w1 ! a = heap w ! a"
    using assms True by (simp_all add: w1_def trace_ok_listeners)
  show ?thesis
  proof (cases "heap w ! a")
    case (RunpyObj p)
    with h1 have "heap w1 ! a = RunpyObj p" by simp
    from trace_ok_commit_Runpy [OF t1 a1 this runpy_kill_ok] True RunpyObj show ?thesis
      by (simp add: Process_kill_def case_prod_beta w1_def)
  next
    case (ImgSummaryObj q)
    with h1 have "heap w1 ! a = ImgSummaryObj q" by simp
    from trace_ok_commit_ImgSummary [OF t1 a1 this, of "[]" q] True ImgSummaryObj show ?thesis
      by (simp add: Process_kill_def ImgSummaryProcess_kill_def w1_def)
  next
    case SynthObj
    with True assms show ?thesis by (simp add: Process_kill_def)
  qed
qed

lemma trace_ok_onExit:
  assumes "trace_ok w"
  shows "trace_ok (Process_onExit w a f)"
proof (cases "a < length (heap w)")
  case False
  with assms show ?thesis by (simp add: Process_onExit_def)
next
  case True
  show ?thesis
  proof (cases "heap w ! a")
    case (RunpyObj p)
    with True trace_ok_commit_Runpy [OF assms True RunpyObj runpy_onExit_ok] show ?thesis
      by (simp add: Process_onExit_def case_prod_beta)
  next
    case (ImgSummaryObj q)
    with True trace_ok_commit_ImgSummary [OF assms True ImgSummaryObj img_onExit_ok]
    show ?thesis by (simp add: Process_onExit_def case_prod_beta)
  next
    case SynthObj
    with True assms show ?thesis by (simp add: Process_onExit_def)
  qed
qed

lemma trace_ok_eventListener:
  assumes "trace_ok w"
  shows "trace_ok (Process_eventListener w a m)"
proof (cases "a < length (heap w)")
  case False
  with assms show ?thesis by (simp add: Process_eventListener_def)
next
  case True
  show ?thesis
  proof (cases "heap w ! a")
    case (RunpyObj p)
    with True trace_ok_commit_Runpy [OF assms True RunpyObj runpy_eventListener_ok]
    show ?thesis by (simp add: Process_eventListener_def case_prod_beta)
  next
    case (ImgSummaryObj q)
    with True trace_ok_commit_ImgSummary [OF assms True ImgSummaryObj img_eventListener_ok]
    show ?thesis by (simp add: Process_eventListener_def case_prod_beta)
  next
    case SynthObj
    with True assms show ?thesis by (simp add: Process_eventListener_def)
  qed
qed

lemma trace_ok_new_RunpyProcess: "trace_ok w \<Longrightarrow> trace_ok (snd (new_RunpyProcess w s))"
  by (auto simp add: trace_ok_def new_RunpyProcess_def Let_def nth_append)

lemma trace_ok_new_ImgSummaryProcess:
  "trace_ok w \<Longrightarrow> trace_ok (snd (new_ImgSummaryProcess w s ln v))"
  by (auto simp add: trace_ok_def new_ImgSummaryProcess_def Let_def nth_append)

lemma trace_ok_new_SynthProcess: "trace_ok w \<Longrightarrow> trace_ok (snd (new_SynthProcess w))"
  by (auto simp add: trace_ok_def new_SynthProcess_def nth_append)

lemma trace_ok_runProgram:
  assumes "trace_ok w" and "runProgram w s = Inr (b, w')"
  shows "trace_ok w'"
proof (cases "pyodideLoaded w")
  case False
  with assms trace_ok_new_SynthProcess [of w] show ?thesis
    by (auto simp add: runProgram_def)
next
  case True
  with assms obtain w1 where s: "saveProgram w s = Inr w1"
    and n: "new_RunpyProcess w1 s = (b, w')"
    by (auto simp add: runProgram_def split: sum.splits)
  from s assms(1) have "trace_ok w1"
    by (auto simp add: saveProgram_def trace_ok_fetches split: option.splits)
  from trace_ok_new_RunpyProcess [OF this, of s] n show ?thesis by simp
qed

lemma trace_ok_initListener:
  assumes "trace_ok w"
  shows "trace_ok (pyodideWorkerInitListener_body w m)"
proof (cases "PyodideWorkerResponse.type m = LOADED")
  case False
  with assms show ?thesis
    by (simp add: pyodideWorkerInitListener_body_def trace_ok_def)
next
  case True
  define w1 where "w1 = w\<lparr>console := console w @ [ConsoleLog ''Pyodide loaded!''],
                    pyodideLoaded := True,
                    listeners := removeEventListener (listeners w) pyodideWorkerInitListener\<rparr>"
  have t1: "trace_ok w1" using assms by (simp add: w1_def trace_ok_def)
  have body: "pyodideWorkerInitListener_body w m =
      (case editor_model w1 of
              None \<Rightarrow> w1
            | Some ls \<Rightarrow>
                (case runProgram w1 (join ls [CHR 0x0A]) of
                   Inl e \<Rightarrow> w1
                 | Inr (b, w2) \<Rightarrow> Process_onExit w2 b bootstrapOnExit))"
    unfolding pyodideWorkerInitListener_body_def Let_def w1_def using True by simp
  show ?thesis
    unfolding body using t1 trace_ok_runProgram [OF t1]
    by (auto simp add: trace_ok_onExit split: option.splits sum.splits)
qed

lemma trace_ok_invoke: "trace_ok w \<Longrightarrow> trace_ok (invoke l m w)"
  by (cases l) (simp_all add: invoke_def trace_ok_initListener trace_ok_eventListener)

lemma trace_ok_dispatch: "trace_ok w \<Longrightarrow> trace_ok (dispatchEvent w m)"
  unfolding dispatchEvent_def
  by (rule dispatch_loop_induct) (simp_all add: trace_ok_invoke)

lemma trace_ok_step:
  assumes "trace_ok w"
  shows "trace_ok (step w x)"
proof (cases x)
  case (Message m)
  with assms show ?thesis by (simp add: trace_ok_dispatch)
next
  case (RunProgram s)
  with assms trace_ok_runProgram [OF assms] show ?thesis
    by (auto split: sum.splits)
next
  case (SynthesizeSnippet s)
  with assms show ?thesis by (simp add: synthesizeSnippet_def trace_ok_new_SynthProcess)
next
  case (RunImgSummary s ln v)
  with assms show ?thesis
    by (simp add: runImgSummary_def trace_ok_new_SynthProcess trace_ok_new_ImgSummaryProcess)
next
  case (OnStdout b f)
  with assms show ?thesis by (simp add: trace_ok_onStdout)
next
  case (OnStderr b f)
  with assms show ?thesis by (simp add: trace_ok_onStderr)
next
  case (Kill b)
  with assms show ?thesis by (simp add: trace_ok_kill)
next
  case (OnExit b f)
  with assms show ?thesis by (simp add: trace_ok_onExit)
qed

lemma trace_ok_exec: "trace_ok w \<Longrightarrow> trace_ok (exec w h)"
  by (rule exec_induct) (simp_all add: trace_ok_step)

lemma trace_ok_init: "trace_ok (init_world csrf model)"
  by (simp add: trace_ok_def init_world_def)

text \<open>
  C9. In every state the module can reach from its load, whatever the page and the
  history, each call of an exit observer recorded for a process passed status \<open>0\<close>
  exactly if the result text was non-empty; with an empty text a run-program process
  passed \<open>null\<close> and an image-summary process passed \<open>1\<close>; a placeholder made no such call.
\<close>

theorem C9_exit_status:
  assumes "(a, CallExit f c r) \<in> set (trace (exec (init_world csrf model) h))"
  shows "(c = Num 0 \<longleftrightarrow> r \<noteq> [])
         \<and> (case heap (exec (init_world csrf model) h) ! a of
              RunpyObj p \<Rightarrow> r = [] \<longrightarrow> c = Null
            | ImgSummaryObj q \<Rightarrow> r = [] \<longrightarrow> c = Num 1
            | SynthObj \<Rightarrow> False)"
proof -
  have "trace_ok (exec (init_world csrf model) h)"
    by (intro trace_ok_exec trace_ok_init)
  with assms have "exit_code_ok (heap (exec (init_world csrf model) h) ! a) (CallExit f c r)"
    by (auto simp add: trace_ok_def)
  then show ?thesis
    by (cases "heap (exec (init_world csrf model) h) ! a") (auto split: if_splits)
qed

theorem C9_exit_status_witness:
  "((0, CallExit bootstrapOnExit Null []) \<in> set (trace (exec w_start h_empty))
     \<and> (Null = Num 0 \<longleftrightarrow> [] \<noteq> ([]::string))
     \<and> (case heap (exec w_start h_empty) ! 0 of
          RunpyObj p \<Rightarrow> [] = ([]::string) \<longrightarrow> Null = Null
        | ImgSummaryObj q \<Rightarrow> [] = ([]::string) \<longrightarrow> Null = Num 1
        | SynthObj \<Rightarrow> False))
   \<and> ((1, CallExit (Fn 7) (Num 1) []) \<in> set (trace (exec w_start h_empty))
     \<and> (Num 1 = Num 0 \<longleftrightarrow> [] \<noteq> ([]::string))
     \<and> (case heap (exec w_start h_empty) ! 1 of
          RunpyObj p \<Rightarrow> [] = ([]::string) \<longrightarrow> Num 1 = Null
        | ImgSummaryObj q \<Rightarrow> [] = ([]::string) \<longrightarrow> Num 1 = Num 1
        | SynthObj \<Rightarrow> False))
   \<and> ((1, CallExit (Fn 7) (Num 0) ''r'') \<in> set (trace (exec w_start h_empty))
     \<and> (Num 0 = Num 0 \<longleftrightarrow> ''r'' \<noteq> [])
     \<and> (case heap (exec w_start h_empty) ! 1 of
          RunpyObj p \<Rightarrow> ''r'' = [] \<longrightarrow> Num 0 = Null
        | ImgSummaryObj q \<Rightarrow> ''r'' = [] \<longrightarrow> Num 0 = Num 1
        | SynthObj \<Rightarrow> False))"
proof -
  have t: "trace (exec w_start h_empty)
      = [(0, CallExit bootstrapOnExit Null []), (1, CallExit (Fn 7) (Num 1) []),
         (1, CallExit (Fn 7) (Num 0) ''r'')]"
    by code_simp
  have m: "(0, CallExit bootstrapOnExit Null []) \<in> set (trace (exec w_start h_empty))"
    "(1, CallExit (Fn 7) (Num 1) []) \<in> set (trace (exec w_start h_empty))"
    "(1, CallExit (Fn 7) (Num 0) ''r'') \<in> set (trace (exec w_start h_empty))"
    by (simp_all add: t)
  note m' = m [unfolded w_start_def]
  from m C9_exit_status [OF m'(1)] C9_exit_status [OF m'(2)] C9_exit_status [OF m'(3)]
  show ?thesis unfolding w_start_def by blast
qed

section \<open>Buffered and streamed output\<close>

subsection \<open>One delivery reaches a registered listener once\<close>

lemma dispatch_loop_untouched:
  assumes "a < length (heap w)" and "eventListener a \<notin> set ls"
  shows "untouched a w (dispatch_loop ls m w)"
  using assms
proof (induction ls arbitrary: w)
  case Nil
  then show ?case by (simp add: untouched_refl)
next
  case (Cons l ls)
  define w' where "w' = (if l \<in> set (listeners w) then invoke l m w else w)"
  from Cons.prems have "l \<noteq> eventListener a" by auto
  with Cons.prems(1) have u: "untouched a w w'"
    by (simp add: w'_def untouched_invoke untouched_refl)
  from u Cons.prems(1) have "a < length (heap w')" by (rule untouched_length)
  with Cons.IH [of w'] Cons.prems(2) have "untouched a w' (dispatch_loop ls m w')" by simp
  with u have "untouched a w (dispatch_loop ls m w')" by (rule untouched_trans)
  then show ?case by (simp add: w'_def)
qed

lemma dispatch_loop_reaches:
  assumes "a < length (heap w)" and "distinct ls" and "eventListener a \<in> set ls"
    and "eventListener a \<in> set (listeners w)"
  shows "\<exists>w1. untouched a w w1 \<and>
           untouched a (Process_eventListener w1 a m) (dispatch_loop ls m w)"
  using assms
proof (induction ls arbitrary: w)
  case Nil
  then show ?case by simp
next
  case (Cons l ls)
  show ?case
  proof (cases "l = eventListener a")
    case True
    define w' where "w' = Process_eventListener w a m"
    from Cons.prems(1) have "a < length (heap w')"
      by (simp add: w'_def length_heap_eventListener)
    moreover from Cons.prems(2) True have "eventListener a \<notin> set ls" by simp
    ultimately have "untouched a w' (dispatch_loop ls m w')"
      by (rule dispatch_loop_untouched)
    with True Cons.prems(4) have "untouched a (Process_eventListener w a m)
        (dispatch_loop (l # ls) m w)"
      by (simp add: w'_def invoke_def)
    with untouched_refl [of a w] show ?thesis by (intro exI [of _ w] conjI)
  next
    case False
    define w' where "w' = (if l \<in> set (listeners w) then invoke l m w else w)"
    from False Cons.prems(1) have u: "untouched a w w'"
      by (simp add: w'_def untouched_invoke untouched_refl)
    with Cons.prems have a': "a < length (heap w')"
      and r': "eventListener a \<in> set (listeners w')"
      by (simp_all add: untouched_def)
    from Cons.prems(2,3) False have "distinct ls" and "eventListener a \<in> set ls" by auto
    from Cons.IH [OF a' this r'] obtain w1 where 1: "untouched a w' w1"
      and 2: "untouched a (Process_eventListener w1 a m) (dispatch_loop ls m w')"
      by (elim exE conjE)
    from u 1 have 3: "untouched a w w1" by (rule untouched_trans)
    from 2 have 4: "untouched a (Process_eventListener w1 a m) (dispatch_loop (l # ls) m w)"
      by (simp add: w'_def)
    from 3 4 show ?thesis by (intro exI [of _ w1] conjI)
  qed
qed

lemma dispatch_delivers:
  assumes "a < length (heap w)" and "distinct (listeners w)"
    and "eventListener a \<in> set (listeners w)"
  shows "\<exists>w1. a < length (heap w1) \<and> heap w1 ! a = heap w ! a \<and> calls_of a w1 = calls_of a w
           \<and> heap (dispatchEvent w m) ! a = heap (Process_eventListener w1 a m) ! a
           \<and> calls_of a (dispatchEvent w m) = calls_of a (Process_eventListener w1 a m)"
proof -
  from dispatch_loop_reaches [OF assms(1,2,3,3), of m] obtain w1
    where "untouched a w w1"
      and "untouched a (Process_eventListener w1 a m) (dispatch_loop (listeners w) m w)"
    by (elim exE conjE)
  then have "a < length (heap w1) \<and> heap w1 ! a = heap w ! a \<and> calls_of a w1 = calls_of a w
           \<and> heap (dispatchEvent w m) ! a = heap (Process_eventListener w1 a m) ! a
           \<and> calls_of a (dispatchEvent w m) = calls_of a (Process_eventListener w1 a m)"
    using assms(1) by (simp add: dispatchEvent_def untouched_def)
  then show ?thesis by (rule exI)
qed

lemma dispatch_delivers_Runpy:
  assumes "a < length (heap w)" and "distinct (listeners w)"
    and "eventListener a \<in> set (listeners w)" and "heap w ! a = RunpyObj p"
  shows "heap (dispatchEvent w m) ! a = RunpyObj (fst (RunpyProcess_eventListener p m))"
    and "calls_of a (dispatchEvent w m) = calls_of a w @ snd (RunpyProcess_eventListener p m)"
proof -
  from dispatch_delivers [OF assms(1-3), of m] assms(4) obtain w1
    where w1: "a < length (heap w1)" "heap w1 ! a = RunpyObj p" "calls_of a w1 = calls_of a w"
      and d: "heap (dispatchEvent w m) ! a = heap (Process_eventListener w1 a m) ! a"
        "calls_of a (dispatchEvent w m) = calls_of a (Process_eventListener w1 a m)"
    by (elim exE conjE) simp
  from w1 have "heap (Process_eventListener w1 a m) ! a
      = RunpyObj (fst (RunpyProcess_eventListener p m))"
    and "calls_of a (Process_eventListener w1 a m)
      = calls_of a w @ snd (RunpyProcess_eventListener p m)"
    by (simp_all add: Process_eventListener_def case_prod_beta heap_commit calls_of_commit)
  with d show "heap (dispatchEvent w m) ! a = RunpyObj (fst (RunpyProcess_eventListener p m))"
    and "calls_of a (dispatchEvent w m) = calls_of a w @ snd (RunpyProcess_eventListener p m)"
    by simp_all
qed

lemma dispatch_delivers_ImgSummary:
  assumes "a < length (heap w)" and "distinct (listeners w)"
    and "eventListener a \<in> set (listeners w)" and "heap w ! a = ImgSummaryObj q"
  shows "heap (dispatchEvent w m) ! a
           = ImgSummaryObj (fst (ImgSummaryProcess_eventListener q m))"
    and "calls_of a (dispatchEvent w m)
           = calls_of a w @ snd (ImgSummaryProcess_eventListener q m)"
proof -
  from dispatch_delivers [OF assms(1-3), of m] assms(4) obtain w1
    where w1: "a < length (heap w1)" "heap w1 ! a = ImgSummaryObj q"
        "calls_of a w1 = calls_of a w"
      and d: "heap (dispatchEvent w m) ! a = heap (Process_eventListener w1 a m) ! a"
        "calls_of a (dispatchEvent w m) = calls_of a (Process_eventListener w1 a m)"
    by (elim exE conjE) simp
  from w1 have "heap (Process_eventListener w1 a m) ! a
      = ImgSummaryObj (fst (ImgSummaryProcess_eventListener q m))"
    and "calls_of a (Process_eventListener w1 a m)
      = calls_of a w @ snd (ImgSummaryProcess_eventListener q m)"
    by (simp_all add: Process_eventListener_def case_prod_beta heap_commit calls_of_commit)
  with d show "heap (dispatchEvent w m) ! a
           = ImgSummaryObj (fst (ImgSummaryProcess_eventListener q m))"
    and "calls_of a (dispatchEvent w m)
           = calls_of a w @ snd (ImgSummaryProcess_eventListener q m)"
    by simp_all
qed

subsection \<open>A run-program process calls nothing before it terminates\<close>

lemma runpy_quiet_eventListener:
  assumes "RunpyProcess.result (fst (RunpyProcess_eventListener p m)) = None"
    and "\<not> RunpyProcess.killed (fst (RunpyProcess_eventListener p m))"
  shows "RunpyProcess.result p = None \<and> \<not> RunpyProcess.killed p
         \<and> snd (RunpyProcess_eventListener p m) = []"
  using assms
  by (cases "PyodideWorkerResponse.type m")
    (simp_all add: RunpyProcess_eventListener_def Let_def split: if_splits)

lemma runpy_quiet_onExit:
  assumes "RunpyProcess.result (fst (RunpyProcess_onExit p f)) = None"
    and "\<not> RunpyProcess.killed (fst (RunpyProcess_onExit p f))"
  shows "RunpyProcess.result p = None \<and> \<not> RunpyProcess.killed p
         \<and> snd (RunpyProcess_onExit p f) = []"
  using assms by (simp add: RunpyProcess_onExit_def Let_def truthy_opt_def)

lemma runpy_quiet_untouched:
  "runpy_quiet a c w \<Longrightarrow> untouched a w w' \<Longrightarrow> runpy_quiet a c w'"
  by (simp add: runpy_quiet_def untouched_def)

lemma runpy_quiet_listener:
  assumes "runpy_quiet a c w"
  shows "runpy_quiet a c (Process_eventListener w a m)"
proof -
  from assms obtain q where a: "a < length (heap w)" and h: "heap w ! a = RunpyObj q"
    and c: "RunpyProcess.result q = None \<and> \<not> RunpyProcess.killed q \<longrightarrow> calls_of a w = c"
    unfolding runpy_quiet_def by blast
  define q' where "q' = fst (RunpyProcess_eventListener q m)"
  define cs where "cs = snd (RunpyProcess_eventListener q m)"
  have w': "Process_eventListener w a m = commit w a (RunpyObj q') cs"
    using a h by (simp add: Process_eventListener_def case_prod_beta q'_def cs_def)
  have "RunpyProcess.result q' = None \<and> \<not> RunpyProcess.killed q' \<longrightarrow>
      calls_of a w @ cs = c"
    using runpy_quiet_eventListener [of q m] c by (auto simp add: q'_def cs_def)
  with a show ?thesis
    by (simp add: runpy_quiet_def w' heap_commit calls_of_commit)
qed

lemma runpy_quiet_dispatch:
  assumes "runpy_quiet a c w"
  shows "runpy_quiet a c (dispatchEvent w m)"
  unfolding dispatchEvent_def
proof (rule dispatch_loop_induct)
  show "runpy_quiet a c w" by (rule assms)
next
  fix w' l
  assume u: "runpy_quiet a c w'"
  show "runpy_quiet a c (invoke l m w')"
  proof (cases "l = eventListener a")
    case True
    with runpy_quiet_listener [OF u] show ?thesis by (simp add: invoke_def)
  next
    case False
    from u have "a < length (heap w')" by (simp add: runpy_quiet_def)
    from untouched_invoke [OF this False] u show ?thesis
      using runpy_quiet_untouched by blast
  qed
qed

lemma runpy_quiet_step:
  assumes "runpy_quiet a c w"
  shows "runpy_quiet a c (step w x)"
proof (cases "targets a x")
  case True
  from assms obtain q where a: "a < length (heap w)" and h: "heap w ! a = RunpyObj q"
    and c: "RunpyProcess.result q = None \<and> \<not> RunpyProcess.killed q \<longrightarrow> calls_of a w = c"
    unfolding runpy_quiet_def by blast
  from True show ?thesis
  proof (cases rule: targets_cases)
    case (1 f)
    with a h c show ?thesis
      by (simp add: runpy_quiet_def Process_onStdout_def RunpyProcess_onStdout_def heap_commit
          calls_of_commit)
  next
    case (2 f)
    with a h c show ?thesis
      by (simp add: runpy_quiet_def Process_onStderr_def RunpyProcess_onStderr_def heap_commit
          calls_of_commit)
  next
    case 3
    with a h show ?thesis
      by (simp add: runpy_quiet_def Process_kill_def RunpyProcess_kill_def Let_def heap_commit)
  next
    case (4 f)
    define q' where "q' = fst (RunpyProcess_onExit q f)"
    define cs where "cs = snd (RunpyProcess_onExit q f)"
    have w': "Process_onExit w a f = commit w a (RunpyObj q') cs"
      using a h by (simp add: Process_onExit_def case_prod_beta q'_def cs_def)
    have "RunpyProcess.result q' = None \<and> \<not> RunpyProcess.killed q' \<longrightarrow>
        calls_of a w @ cs = c"
      using runpy_quiet_onExit [of q f] c by (auto simp add: q'_def cs_def)
    with a 4 show ?thesis
      by (simp add: runpy_quiet_def w' heap_commit calls_of_commit)
  qed
next
  case False
  show ?thesis
  proof (cases "\<exists>m. x = Message m")
    case True
    with assms show ?thesis by (auto simp add: runpy_quiet_dispatch)
  next
    case nm: False
    from assms have "a < length (heap w)" by (simp add: runpy_quiet_def)
    with False nm have "untouched a w (step w x)" by (simp add: step_untouched)
    with assms show ?thesis by (rule runpy_quiet_untouched)
  qed
qed

lemma runpy_quiet_exec: "runpy_quiet a c w \<Longrightarrow> runpy_quiet a c (exec w h)"
  by (rule exec_induct) (simp_all add: runpy_quiet_step)

subsection \<open>What each operation calls, and when\<close>

text \<open>
  C2. Run-program. The listener, on a matching \<open>STDOUT\<close> or \<open>STDERR\<close>, appends the text to
  its buffer and calls nothing; \<open>onStdout\<close> and \<open>onStderr\<close> store the observer and call
  nothing. The buffers go to the registered stdout and stderr observers where the
  closure of \<open>onExit\<close> runs, and there they come first and the exit callback last: on a
  matching \<open>RESULT\<close> and on \<open>kill\<close> if an exit observer is registered, and on \<open>onExit\<close>
  if a non-empty result is stored or the process was killed. In every history, a
  process that has neither a result nor been killed has called no observer since the
  history began, whatever output arrived and whatever was registered. A message
  delivered to the worker reaches the registered listener of a process once.
  Image-summary. The listener, on a matching \<open>STDOUT\<close> or \<open>STDERR\<close>, appends the text and
  passes it at once to the registered observer; \<open>onStdout\<close> and \<open>onStderr\<close> store the
  observer and call it at once with a non-empty buffer.
\<close>

theorem C2_output_delivery:
  "RunpyProcess_buffers p
     = (case RunpyProcess.onOutput p of
          None \<Rightarrow> [] | Some g \<Rightarrow> [CallData g (RunpyProcess.output p)])
       @ (case RunpyProcess.onError p of
            None \<Rightarrow> [] | Some g \<Rightarrow> [CallData g (RunpyProcess.error p)])
   \<and> (PyodideWorkerResponse.id m \<noteq> RunpyProcess.id p \<longrightarrow>
        RunpyProcess_eventListener p m = (p, []))
   \<and> (PyodideWorkerResponse.id m = RunpyProcess.id p \<longrightarrow>
        (PyodideWorkerResponse.type m = STDOUT \<longrightarrow>
           RunpyProcess_eventListener p m
             = (p\<lparr>RunpyProcess.output := RunpyProcess.output p @ msg m\<rparr>, []))
      \<and> (PyodideWorkerResponse.type m = STDERR \<or> PyodideWorkerResponse.type m = EXCEPTION \<longrightarrow>
           RunpyProcess_eventListener p m
             = (p\<lparr>RunpyProcess.error := RunpyProcess.error p @ msg m\<rparr>, []))
      \<and> (PyodideWorkerResponse.type m = RESULT \<longrightarrow>
           RunpyProcess_eventListener p m
             = (p\<lparr>RunpyProcess.result := Some (msg m)\<rparr>,
                case RunpyProcess.onResult p of
                  None \<Rightarrow> []
                | Some g \<Rightarrow> RunpyProcess_buffers p
                    @ [CallExit g (if msg m \<noteq> [] then Num 0 else Null) (msg m)]))
      \<and> (PyodideWorkerResponse.type m = ERROR \<or> PyodideWorkerResponse.type m = LOADED \<longrightarrow>
           RunpyProcess_eventListener p m = (p, [])))
   \<and> RunpyProcess_onStdout p f = (p\<lparr>RunpyProcess.onOutput := Some f\<rparr>, [])
   \<and> RunpyProcess_onStderr p f = (p\<lparr>RunpyProcess.onError := Some f\<rparr>, [])
   \<and> RunpyProcess_kill p
       = (p\<lparr>RunpyProcess.killed := True\<rparr>,
          case RunpyProcess.onResult p of
            None \<Rightarrow> []
          | Some g \<Rightarrow> RunpyProcess_buffers p @ [CallExit g Null []])
   \<and> RunpyProcess_onExit p f
       = (p\<lparr>RunpyProcess.onResult := Some f\<rparr>,
          case RunpyProcess.result p of
            Some r \<Rightarrow>
              if r \<noteq> [] then RunpyProcess_buffers p @ [CallExit f (Num 0) r]
              else if RunpyProcess.killed p then RunpyProcess_buffers p @ [CallExit f Null []]
              else []
          | None \<Rightarrow>
              if RunpyProcess.killed p then RunpyProcess_buffers p @ [CallExit f Null []]
              else [])
   \<and> (a < length (heap w) \<and> heap w ! a = RunpyObj p \<and> heap (exec w h) ! a = RunpyObj p'
        \<and> RunpyProcess.result p' = None \<and> \<not> RunpyProcess.killed p' \<longrightarrow>
        calls_of a (exec w h) = calls_of a w)
   \<and> (a < length (heap w) \<and> distinct (listeners w)
        \<and> eventListener a \<in> set (listeners w) \<and> heap w ! a = RunpyObj p \<longrightarrow>
        heap (dispatchEvent w m) ! a = RunpyObj (fst (RunpyProcess_eventListener p m))
        \<and> calls_of a (dispatchEvent w m)
            = calls_of a w @ snd (RunpyProcess_eventListener p m))
   \<and> (a < length (heap w) \<and> distinct (listeners w)
        \<and> eventListener a \<in> set (listeners w) \<and> heap w ! a = ImgSummaryObj q \<longrightarrow>
        heap (dispatchEvent w m) ! a = ImgSummaryObj (fst (ImgSummaryProcess_eventListener q m))
        \<and> calls_of a (dispatchEvent w m)
            = calls_of a w @ snd (ImgSummaryProcess_eventListener q m))
   \<and> (PyodideWorkerResponse.id m = ImgSummaryProcess.id q \<longrightarrow>
        (PyodideWorkerResponse.type m = STDOUT \<longrightarrow>
           ImgSummaryProcess_eventListener q m
             = (q\<lparr>ImgSummaryProcess.output := ImgSummaryProcess.output q @ msg m\<rparr>,
                case ImgSummaryProcess.onOutput q of
                  None \<Rightarrow> [] | Some g \<Rightarrow> [CallData g (msg m)]))
      \<and> (PyodideWorkerResponse.type m = STDERR \<longrightarrow>
           ImgSummaryProcess_eventListener q m
             = (q\<lparr>ImgSummaryProcess.error := ImgSummaryProcess.error q @ msg m\<rparr>,
                case ImgSummaryProcess.onError q of
                  None \<Rightarrow> [] | Some g \<Rightarrow> [CallData g (msg m)])))
   \<and> ImgSummaryProcess_onStdout q f
       = (q\<lparr>ImgSummaryProcess.onOutput := Some f\<rparr>,
          if ImgSummaryProcess.output q \<noteq> [] then [CallData f (ImgSummaryProcess.output q)]
          else [])
   \<and> ImgSummaryProcess_onStderr q f
       = (q\<lparr>ImgSummaryProcess.onError := Some f\<rparr>,
          if ImgSummaryProcess.error q \<noteq> [] then [CallData f (ImgSummaryProcess.error q)]
          else [])"
proof -
  have c0: "RunpyProcess_buffers p
       = (case RunpyProcess.onOutput p of
            None \<Rightarrow> [] | Some g \<Rightarrow> [CallData g (RunpyProcess.output p)])
         @ (case RunpyProcess.onError p of
              None \<Rightarrow> [] | Some g \<Rightarrow> [CallData g (RunpyProcess.error p)])"
    by (simp add: RunpyProcess_buffers_def)
  have c1: "(PyodideWorkerResponse.id m \<noteq> RunpyProcess.id p \<longrightarrow>
          RunpyProcess_eventListener p m = (p, []))"
    by (simp add: RunpyProcess_eventListener_def)
  have c2: "(PyodideWorkerResponse.id m = RunpyProcess.id p \<longrightarrow>
          (PyodideWorkerResponse.type m = STDOUT \<longrightarrow>
             RunpyProcess_eventListener p m
               = (p\<lparr>RunpyProcess.output := RunpyProcess.output p @ msg m\<rparr>, []))
        \<and> (PyodideWorkerResponse.type m = STDERR \<or> PyodideWorkerResponse.type m = EXCEPTION \<longrightarrow>
             RunpyProcess_eventListener p m
               = (p\<lparr>RunpyProcess.error := RunpyProcess.error p @ msg m\<rparr>, []))
        \<and> (PyodideWorkerResponse.type m = RESULT \<longrightarrow>
             RunpyProcess_eventListener p m
               = (p\<lparr>RunpyProcess.result := Some (msg m)\<rparr>,
                  case RunpyProcess.onResult p of
                    None \<Rightarrow> []
                  | Some g \<Rightarrow> RunpyProcess_buffers p
                      @ [CallExit g (if msg m \<noteq> [] then Num 0 else Null) (msg m)]))
        \<and> (PyodideWorkerResponse.type m = ERROR \<or> PyodideWorkerResponse.type m = LOADED \<longrightarrow>
             RunpyProcess_eventListener p m = (p, [])))"
    by (auto simp add: RunpyProcess_eventListener_def Let_def RunpyProcess_onResult_buffers
        buffers_result split: option.splits)
  have c3: "RunpyProcess_onStdout p f = (p\<lparr>RunpyProcess.onOutput := Some f\<rparr>, [])"
    by (simp add: RunpyProcess_onStdout_def)
  have c4: "RunpyProcess_onStderr p f = (p\<lparr>RunpyProcess.onError := Some f\<rparr>, [])"
    by (simp add: RunpyProcess_onStderr_def)
  have c5: "RunpyProcess_kill p
         = (p\<lparr>RunpyProcess.killed := True\<rparr>,
            case RunpyProcess.onResult p of
              None \<Rightarrow> []
            | Some g \<Rightarrow> RunpyProcess_buffers p @ [CallExit g Null []])"
    by (simp add: RunpyProcess_kill_def Let_def RunpyProcess_onResult_buffers buffers_killed
        split: option.splits)
  have c6: "RunpyProcess_onExit p f
         = (p\<lparr>RunpyProcess.onResult := Some f\<rparr>,
            case RunpyProcess.result p of
              Some r \<Rightarrow>
                if r \<noteq> [] then RunpyProcess_buffers p @ [CallExit f (Num 0) r]
                else if RunpyProcess.killed p then RunpyProcess_buffers p @ [CallExit f Null []]
                else []
            | None \<Rightarrow>
                if RunpyProcess.killed p then RunpyProcess_buffers p @ [CallExit f Null []]
                else [])"
    by (simp add: RunpyProcess_onExit_def Let_def RunpyProcess_onResult_buffers buffers_onResult
        truthy_opt_def truthy_def split: option.splits)
  have c7: "(a < length (heap w) \<and> heap w ! a = RunpyObj p \<and> heap (exec w h) ! a = RunpyObj p'
          \<and> RunpyProcess.result p' = None \<and> \<not> RunpyProcess.killed p' \<longrightarrow>
          calls_of a (exec w h) = calls_of a w)"
  proof (intro impI)
    assume h: "a < length (heap w) \<and> heap w ! a = RunpyObj p \<and> heap (exec w h) ! a = RunpyObj p'
        \<and> RunpyProcess.result p' = None \<and> \<not> RunpyProcess.killed p'"
    then have "runpy_quiet a (calls_of a w) w" by (simp add: runpy_quiet_def)
    then have "runpy_quiet a (calls_of a w) (exec w h)" by (rule runpy_quiet_exec)
    with h show "calls_of a (exec w h) = calls_of a w" by (auto simp add: runpy_quiet_def)
  qed
  have c8: "(a < length (heap w) \<and> distinct (listeners w)
          \<and> eventListener a \<in> set (listeners w) \<and> heap w ! a = RunpyObj p \<longrightarrow>
          heap (dispatchEvent w m) ! a = RunpyObj (fst (RunpyProcess_eventListener p m))
          \<and> calls_of a (dispatchEvent w m)
              = calls_of a w @ snd (RunpyProcess_eventListener p m))"
    using dispatch_delivers_Runpy [of a w p m] by simp
  have c9: "(a < length (heap w) \<and> distinct (listeners w)
          \<and> eventListener a \<in> set (listeners w) \<and> heap w ! a = ImgSummaryObj q \<longrightarrow>
          heap (dispatchEvent w m) ! a = ImgSummaryObj (fst (ImgSummaryProcess_eventListener q m))
          \<and> calls_of a (dispatchEvent w m)
              = calls_of a w @ snd (ImgSummaryProcess_eventListener q m))"
    using dispatch_delivers_ImgSummary [of a w q m] by simp
  have c10: "(PyodideWorkerResponse.id m = ImgSummaryProcess.id q \<longrightarrow>
          (PyodideWorkerResponse.type m = STDOUT \<longrightarrow>
             ImgSummaryProcess_eventListener q m
               = (q\<lparr>ImgSummaryProcess.output := ImgSummaryProcess.output q @ msg m\<rparr>,
                  case ImgSummaryProcess.onOutput q of
                    None \<Rightarrow> [] | Some g \<Rightarrow> [CallData g (msg m)]))
        \<and> (PyodideWorkerResponse.type m = STDERR \<longrightarrow>
             ImgSummaryProcess_eventListener q m
               = (q\<lparr>ImgSummaryProcess.error := ImgSummaryProcess.error q @ msg m\<rparr>,
                  case ImgSummaryProcess.onError q of
                    None \<Rightarrow> [] | Some g \<Rightarrow> [CallData g (msg m)])))"
    by (simp add: ImgSummaryProcess_eventListener_def Let_def)
  have c11: "ImgSummaryProcess_onStdout q f
         = (q\<lparr>ImgSummaryProcess.onOutput := Some f\<rparr>,
            if ImgSummaryProcess.output q \<noteq> [] then [CallData f (ImgSummaryProcess.output q)]
            else [])"
    by (simp add: ImgSummaryProcess_onStdout_def Let_def truthy_def)
  have c12: "ImgSummaryProcess_onStderr q f
         = (q\<lparr>ImgSummaryProcess.onError := Some f\<rparr>,
            if ImgSummaryProcess.error q \<noteq> [] then [CallData f (ImgSummaryProcess.error q)]
            else [])"
    by (simp add: ImgSummaryProcess_onStderr_def Let_def truthy_def)
  from c0 c1 c2 c3 c4 c5 c6 c7 c8 c9 c10 c11 c12 show ?thesis by (intro conjI)
qed

lemma w_out_facts:
  "(0::nat) < length (heap w_out)" "heap w_out ! 0 = RunpyObj p_run_out"
  "(1::nat) < length (heap w_out)" "heap w_out ! 1 = ImgSummaryObj p_img"
  "distinct (listeners w_out)" "eventListener 0 \<in> set (listeners w_out)"
  "eventListener 1 \<in> set (listeners w_out)" "calls_of 0 w_out = []" "calls_of 1 w_out = []"
  "heap w_out \<noteq> []"
  "heap (exec w_out h_quiet) ! 0
     = RunpyObj (p_run_out\<lparr>RunpyProcess.onError := Some (Fn 3), RunpyProcess.error := ''e'',
         RunpyProcess.output := ''abc''\<rparr>)"
  by code_simp+

theorem C2_output_delivery_witness:
  "PyodideWorkerResponse.id (mk_msg 0 STDOUT ''c'') = RunpyProcess.id p_run_out
   \<and> PyodideWorkerResponse.type (mk_msg 0 STDOUT ''c'') = STDOUT
   \<and> RunpyProcess_eventListener p_run_out (mk_msg 0 STDOUT ''c'')
       = (p_run_out\<lparr>RunpyProcess.output := ''abc''\<rparr>, [])
   \<and> PyodideWorkerResponse.type (mk_msg 0 STDERR ''e'') = STDERR
   \<and> RunpyProcess_eventListener p_run_out (mk_msg 0 STDERR ''e'')
       = (p_run_out\<lparr>RunpyProcess.error := ''e''\<rparr>, [])
   \<and> PyodideWorkerResponse.type (mk_msg 0 RESULT ''r'') = RESULT
   \<and> RunpyProcess_eventListener p_run_out (mk_msg 0 RESULT ''r'')
       = (p_run_out\<lparr>RunpyProcess.result := Some ''r''\<rparr>,
          [CallData (Fn 2) ''ab'', CallExit bootstrapOnExit (Num 0) ''r''])
   \<and> RunpyProcess_kill p_run_out
       = (p_run_out\<lparr>RunpyProcess.killed := True\<rparr>,
          [CallData (Fn 2) ''ab'', CallExit bootstrapOnExit Null []])
   \<and> RunpyProcess_onStdout p_run_out (Fn 4)
       = (p_run_out\<lparr>RunpyProcess.onOutput := Some (Fn 4)\<rparr>, [])
   \<and> (0::nat) < length (heap w_out) \<and> heap w_out ! 0 = RunpyObj p_run_out
   \<and> heap (exec w_out h_quiet) ! 0
       = RunpyObj (p_run_out\<lparr>RunpyProcess.onError := Some (Fn 3), RunpyProcess.error := ''e'',
           RunpyProcess.output := ''abc''\<rparr>)
   \<and> calls_of 0 (exec w_out h_quiet) = []
   \<and> distinct (listeners w_out) \<and> eventListener 0 \<in> set (listeners w_out)
   \<and> calls_of 0 (dispatchEvent w_out (mk_msg 0 RESULT ''r''))
       = [CallData (Fn 2) ''ab'', CallExit bootstrapOnExit (Num 0) ''r'']
   \<and> (1::nat) < length (heap w_out) \<and> eventListener 1 \<in> set (listeners w_out)
   \<and> heap w_out ! 1 = ImgSummaryObj p_img
   \<and> heap (dispatchEvent w_out (mk_msg 1 STDOUT ''x'')) ! 1
       = ImgSummaryObj (p_img\<lparr>ImgSummaryProcess.output := ''x''\<rparr>)
   \<and> PyodideWorkerResponse.id (mk_msg 0 STDOUT ''c'') = ImgSummaryProcess.id p_img_out
   \<and> ImgSummaryProcess_eventListener p_img_out (mk_msg 0 STDOUT ''c'')
       = (p_img_out\<lparr>ImgSummaryProcess.output := ''abc''\<rparr>, [CallData (Fn 2) ''c''])
   \<and> ImgSummaryProcess_eventListener p_img_out (mk_msg 0 STDERR ''e'')
       = (p_img_out\<lparr>ImgSummaryProcess.error := ''ee''\<rparr>, [])
   \<and> ImgSummaryProcess_onStdout p_img_out (Fn 4)
       = (p_img_out\<lparr>ImgSummaryProcess.onOutput := Some (Fn 4)\<rparr>, [CallData (Fn 4) ''ab''])
   \<and> ImgSummaryProcess_onStderr p_img_out (Fn 4)
       = (p_img_out\<lparr>ImgSummaryProcess.onError := Some (Fn 4)\<rparr>, [CallData (Fn 4) ''e''])"
proof -
  have m: "PyodideWorkerResponse.id (mk_msg i t s) = i"
    "PyodideWorkerResponse.type (mk_msg i t s) = t" "msg (mk_msg i t s) = s" for i t s
    by (simp_all add: mk_msg_def)
  have p: "RunpyProcess.id p_run_out = 0" "RunpyProcess.output p_run_out = ''ab''"
    "RunpyProcess.error p_run_out = []" "RunpyProcess.onOutput p_run_out = Some (Fn 2)"
    "RunpyProcess.onError p_run_out = None"
    "RunpyProcess.onResult p_run_out = Some bootstrapOnExit"
    "RunpyProcess.result p_run_out = None" "\<not> RunpyProcess.killed p_run_out"
    by (simp_all add: p_run_out_def p_run_def)
  have q: "ImgSummaryProcess.id p_img_out = 0" "ImgSummaryProcess.output p_img_out = ''ab''"
    "ImgSummaryProcess.error p_img_out = ''e''"
    "ImgSummaryProcess.onOutput p_img_out = Some (Fn 2)"
    "ImgSummaryProcess.onError p_img_out = None"
    by (simp_all add: p_img_out_def p_img_def)
  have q1: "ImgSummaryProcess.id p_img = 1" "ImgSummaryProcess.output p_img = []"
    "ImgSummaryProcess.onOutput p_img = None"
    by (simp_all add: p_img_def)
  note w = w_out_facts
  from C2_output_delivery [of p_run_out "mk_msg 0 STDOUT ''c''" "Fn 4" 0 w_out h_quiet
      "p_run_out\<lparr>RunpyProcess.onError := Some (Fn 3), RunpyProcess.error := ''e'',
         RunpyProcess.output := ''abc''\<rparr>" p_img_out]
  have i1: "RunpyProcess_buffers p_run_out = [CallData (Fn 2) ''ab'']"
    "RunpyProcess_eventListener p_run_out (mk_msg 0 STDOUT ''c'')
       = (p_run_out\<lparr>RunpyProcess.output := ''abc''\<rparr>, [])"
    "RunpyProcess_kill p_run_out
       = (p_run_out\<lparr>RunpyProcess.killed := True\<rparr>,
          [CallData (Fn 2) ''ab'', CallExit bootstrapOnExit Null []])"
    "RunpyProcess_onStdout p_run_out (Fn 4)
       = (p_run_out\<lparr>RunpyProcess.onOutput := Some (Fn 4)\<rparr>, [])"
    "calls_of 0 (exec w_out h_quiet) = []"
    "ImgSummaryProcess_eventListener p_img_out (mk_msg 0 STDOUT ''c'')
       = (p_img_out\<lparr>ImgSummaryProcess.output := ''abc''\<rparr>, [CallData (Fn 2) ''c''])"
    "ImgSummaryProcess_onStdout p_img_out (Fn 4)
       = (p_img_out\<lparr>ImgSummaryProcess.onOutput := Some (Fn 4)\<rparr>, [CallData (Fn 4) ''ab''])"
    "ImgSummaryProcess_onStderr p_img_out (Fn 4)
       = (p_img_out\<lparr>ImgSummaryProcess.onError := Some (Fn 4)\<rparr>, [CallData (Fn 4) ''e''])"
    by (simp_all add: m p q w)
  from C2_output_delivery [of p_run_out "mk_msg 0 STDERR ''e''" "Fn 4" 0 w_out h_quiet p_run_out p_img_out]
  have i2: "RunpyProcess_eventListener p_run_out (mk_msg 0 STDERR ''e'')
       = (p_run_out\<lparr>RunpyProcess.error := ''e''\<rparr>, [])"
    "ImgSummaryProcess_eventListener p_img_out (mk_msg 0 STDERR ''e'')
       = (p_img_out\<lparr>ImgSummaryProcess.error := ''ee''\<rparr>, [])"
    by (simp_all add: m p q)
  from C2_output_delivery [of p_run_out "mk_msg 0 RESULT ''r''" "Fn 4" 0 w_out h_quiet p_run_out p_img_out]
  have i3: "RunpyProcess_eventListener p_run_out (mk_msg 0 RESULT ''r'')
       = (p_run_out\<lparr>RunpyProcess.result := Some ''r''\<rparr>,
          [CallData (Fn 2) ''ab'', CallExit bootstrapOnExit (Num 0) ''r''])"
    "calls_of 0 (dispatchEvent w_out (mk_msg 0 RESULT ''r''))
       = [CallData (Fn 2) ''ab'', CallExit bootstrapOnExit (Num 0) ''r'']"
    by (simp_all add: m p w i1(1))
  from C2_output_delivery [of p_run_out "mk_msg 1 STDOUT ''x''" "Fn 4" 1 w_out h_quiet p_run_out p_img]
  have i4: "heap (dispatchEvent w_out (mk_msg 1 STDOUT ''x'')) ! 1
       = ImgSummaryObj (p_img\<lparr>ImgSummaryProcess.output := ''x''\<rparr>)"
    using q1 w by (simp add: m)
  from i1 i2 i3 i4 p q w show ?thesis by (simp add: m)
qed

section \<open>Registering an exit observer after a result\<close>

text \<open>
  What holds of C3: a stored non-empty result is replayed at once to an exit observer
  registered later, and an observer registered before is called once by the listener
  when a matching \<open>RESULT\<close> arrives, whatever its text.
\<close>

lemma onExit_replays_nonempty_result:
  assumes "r \<noteq> []"
  shows "RunpyProcess.result p = Some r \<Longrightarrow>
           snd (RunpyProcess_onExit p f) = RunpyProcess_buffers p @ [CallExit f (Num 0) r]"
    and "ImgSummaryProcess.result q = Some r \<Longrightarrow>
           snd (ImgSummaryProcess_onExit q f) = [CallExit f (Num 0) r]"
  using assms
  by (simp_all add: RunpyProcess_onExit_def ImgSummaryProcess_onExit_def Let_def truthy_opt_def
      truthy_def RunpyProcess_onResult_buffers buffers_onResult ImgSummaryProcess_onResult_def)

lemma listener_calls_exit_observer_once:
  assumes "PyodideWorkerResponse.type m = RESULT"
  shows "PyodideWorkerResponse.id m = RunpyProcess.id p \<Longrightarrow> RunpyProcess.onResult p = Some f \<Longrightarrow>
           filter is_exit (snd (RunpyProcess_eventListener p m))
             = [CallExit f (if msg m \<noteq> [] then Num 0 else Null) (msg m)]"
    and "PyodideWorkerResponse.id m = ImgSummaryProcess.id q \<Longrightarrow>
         ImgSummaryProcess.onResult q = Some f \<Longrightarrow>
           snd (ImgSummaryProcess_eventListener q m)
             = [CallExit f (if msg m \<noteq> [] then Num 0 else Num 1) (msg m)]"
  using assms
  by (simp_all add: RunpyProcess_eventListener_def ImgSummaryProcess_eventListener_def Let_def
      RunpyProcess_onResult_buffers is_exit_buffers ImgSummaryProcess_onResult_def truthy_def)

text \<open>The empty result is not replayed, by either variant.\<close>

lemma onExit_drops_empty_result:
  "RunpyProcess.result p = Some [] \<Longrightarrow> \<not> RunpyProcess.killed p \<Longrightarrow>
     snd (RunpyProcess_onExit p f) = []"
  "ImgSummaryProcess.result q = Some [] \<Longrightarrow> snd (ImgSummaryProcess_onExit q f) = []"
  by (simp_all add: RunpyProcess_onExit_def ImgSummaryProcess_onExit_def Let_def truthy_opt_def
      truthy_def)

text \<open>
  C3 at the failing input. A run-program process (reference 1) and an image-summary
  process (reference 2) each receive a \<open>RESULT\<close> with the empty text and store it. An
  exit observer registered afterwards is not called at registration, nor by the
  output that arrives next. Had it been registered before the message, the listener
  would have called it with the empty text.
\<close>

theorem C3_empty_result_not_replayed:
  "heap (exec w_start (h_three @ [Message (mk_msg 1 RESULT []), Message (mk_msg 2 RESULT [])])) ! 1
     = RunpyObj \<lparr>RunpyProcess.id = 1, onResult = None, onOutput = None, onError = None,
         result = Some [], error = [], output = [], killed = False\<rparr>
   \<and> heap (exec w_start (h_three @ [Message (mk_msg 1 RESULT []), Message (mk_msg 2 RESULT [])])) ! 2
     = ImgSummaryObj \<lparr>ImgSummaryProcess.id = 2, onResult = None, onOutput = None,
         onError = None, result = Some [], error = [], output = []\<rparr>
   \<and> trace (exec w_start (h_three @ [Message (mk_msg 1 RESULT []), Message (mk_msg 2 RESULT []),
        OnExit 1 (Fn 5), OnExit 2 (Fn 6), Message (mk_msg 1 STDOUT ''x'')])) = []
   \<and> trace (exec w_start (h_three @ [OnExit 1 (Fn 5), OnExit 2 (Fn 6),
        Message (mk_msg 1 RESULT []), Message (mk_msg 2 RESULT [])]))
     = [(1, CallExit (Fn 5) Null []), (2, CallExit (Fn 6) (Num 1) [])]"
  by code_simp

section \<open>The listener list holds no listener twice\<close>

text \<open>
  \<open>removeEventListener\<close> is written with \<open>removeAll\<close>. In every state the module can
  reach the list of listeners is distinct, so that taking out one occurrence and
  taking out all are the same.
\<close>

lemma distinct_addEventListener: "distinct ls \<Longrightarrow> distinct (addEventListener ls l)"
  by (simp add: addEventListener_def)

lemma distinct_removeEventListener: "distinct ls \<Longrightarrow> distinct (removeEventListener ls l)"
  by (simp add: removeEventListener_def distinct_removeAll)

lemma removeEventListener_remove1:
  "distinct ls \<Longrightarrow> removeEventListener ls l = remove1 l ls"
  by (simp add: removeEventListener_def distinct_remove1_removeAll)

lemma listeners_onStdout: "listeners (Process_onStdout w a f) = listeners w"
  by (simp add: Process_onStdout_def listeners_commit split: Process.splits prod.splits)

lemma listeners_onStderr: "listeners (Process_onStderr w a f) = listeners w"
  by (simp add: Process_onStderr_def listeners_commit split: Process.splits prod.splits)

lemma listeners_onExit: "listeners (Process_onExit w a f) = listeners w"
  by (simp add: Process_onExit_def listeners_commit split: Process.splits prod.splits)

lemma distinct_kill: "distinct (listeners w) \<Longrightarrow> distinct (listeners (Process_kill w a))"
  by (simp add: Process_kill_def listeners_commit distinct_removeEventListener
      split: Process.splits prod.splits)

lemma listeners_new_SynthProcess: "listeners (snd (new_SynthProcess w)) = listeners w"
  by (simp add: new_SynthProcess_def)

lemma listeners_new_RunpyProcess:
  "listeners (snd (new_RunpyProcess w s))
     = addEventListener (listeners w) (eventListener (length (heap w)))"
  by (simp add: new_RunpyProcess_def Let_def)

lemma listeners_new_ImgSummaryProcess:
  "listeners (snd (new_ImgSummaryProcess w s ln v))
     = addEventListener (listeners w) (eventListener (length (heap w)))"
  by (simp add: new_ImgSummaryProcess_def Let_def)

lemma listeners_saveProgram: "saveProgram w s = Inr w' \<Longrightarrow> listeners w' = listeners w"
  by (auto simp add: saveProgram_def split: option.splits)

lemma distinct_runProgram:
  assumes "distinct (listeners w)" and "runProgram w s = Inr (b, w')"
  shows "distinct (listeners w')"
proof (cases "pyodideLoaded w")
  case False
  with assms(2) have "w' = snd (new_SynthProcess w)" by (simp add: runProgram_def)
  with assms(1) show ?thesis by (simp add: listeners_new_SynthProcess)
next
  case True
  with assms(2) obtain w1 where s: "saveProgram w s = Inr w1"
    and n: "new_RunpyProcess w1 s = (b, w')"
    by (auto simp add: runProgram_def split: sum.splits)
  from n have "w' = snd (new_RunpyProcess w1 s)" by simp
  with assms(1) listeners_saveProgram [OF s] show ?thesis
    by (simp add: listeners_new_RunpyProcess distinct_addEventListener)
qed

lemma distinct_runImgSummary:
  "distinct (listeners w) \<Longrightarrow> distinct (listeners (snd (runImgSummary w s ln v)))"
  by (simp add: runImgSummary_def listeners_new_SynthProcess listeners_new_ImgSummaryProcess
      distinct_addEventListener)

lemma distinct_initListener:
  assumes "distinct (listeners w)"
  shows "distinct (listeners (pyodideWorkerInitListener_body w m))"
proof (cases "PyodideWorkerResponse.type m = LOADED")
  case False
  with assms show ?thesis by (simp add: pyodideWorkerInitListener_body_def)
next
  case True
  define w1 where "w1 = w\<lparr>console := console w @ [ConsoleLog ''Pyodide loaded!''],
                    pyodideLoaded := True,
                    listeners := removeEventListener (listeners w) pyodideWorkerInitListener\<rparr>"
  have d1: "distinct (listeners w1)"
    using assms by (simp add: w1_def distinct_removeEventListener)
  have body: "pyodideWorkerInitListener_body w m =
      (case editor_model w1 of
              None \<Rightarrow> w1
            | Some ls \<Rightarrow>
                (case runProgram w1 (join ls [CHR 0x0A]) of
                   Inl e \<Rightarrow> w1
                 | Inr (b, w2) \<Rightarrow> Process_onExit w2 b bootstrapOnExit))"
    unfolding pyodideWorkerInitListener_body_def Let_def w1_def using True by simp
  show ?thesis
    unfolding body using d1 distinct_runProgram [OF d1]
    by (auto simp add: listeners_onExit split: option.splits sum.splits)
qed

lemma distinct_invoke: "distinct (listeners w) \<Longrightarrow> distinct (listeners (invoke l m w))"
  by (cases l) (simp_all add: invoke_def distinct_initListener listeners_eventListener)

lemma distinct_dispatch:
  "distinct (listeners w) \<Longrightarrow> distinct (listeners (dispatchEvent w m))"
  unfolding dispatchEvent_def
  by (rule dispatch_loop_induct [where P = "\<lambda>w. distinct (listeners w)"])
    (simp_all add: distinct_invoke)

lemma distinct_step:
  assumes "distinct (listeners w)"
  shows "distinct (listeners (step w x))"
proof (cases x)
  case (Message m)
  with assms show ?thesis by (simp add: distinct_dispatch)
next
  case (RunProgram s)
  with assms distinct_runProgram [OF assms] show ?thesis by (auto split: sum.splits)
next
  case (SynthesizeSnippet s)
  with assms show ?thesis by (simp add: synthesizeSnippet_def listeners_new_SynthProcess)
next
  case (RunImgSummary s ln v)
  with assms show ?thesis by (simp add: distinct_runImgSummary)
next
  case (OnStdout b f)
  with assms show ?thesis by (simp add: listeners_onStdout)
next
  case (OnStderr b f)
  with assms show ?thesis by (simp add: listeners_onStderr)
next
  case (Kill b)
  with assms show ?thesis by (simp add: distinct_kill)
next
  case (OnExit b f)
  with assms show ?thesis by (simp add: listeners_onExit)
qed

lemma distinct_listeners_reachable:
  "distinct (listeners (exec (init_world csrf model) h))"
proof (rule exec_induct [where P = "\<lambda>w. distinct (listeners w)"])
  show "distinct (listeners (init_world csrf model))" by (simp add: init_world_def)
qed (simp add: distinct_step)

end
